theory Spec2Isabelle
  imports Complex_Main
begin

section \<open>JavaScript values of the request bodies\<close>

text \<open>
  The handlers of \<^verbatim>\<open>frontend/server.js\<close> read fields of a JSON body and coerce them
  with \<^verbatim>\<open>Number(...)\<close>, \<^verbatim>\<open>String(...)\<close>, \<^verbatim>\<open>encodeURIComponent(...)\<close> and \<^verbatim>\<open>!x\<close>.

  A JavaScript number is a binary64 value: NaN, one of the two infinities, or a finite
  value, which is a rational. The numbers that arrive from JSON (the amount of a body, a
  balance of the backend) are such values already. The sign of zero is dropped.
\<close>

datatype jsnum = NaN | PInf | NInf | Fin rat

text \<open>
  A body field is a JSON scalar; an absent field (\<^verbatim>\<open>undefined\<close>) is \<open>None\<close> of
  \<open>jsval option\<close>. \<open>JNum PInf\<close> is what \<^verbatim>\<open>JSON.parse\<close> gives for a literal beyond the
  range of doubles, such as \<^verbatim>\<open>1e999\<close>. Arrays and objects, whose coercion runs
  \<^verbatim>\<open>toString\<close> and \<^verbatim>\<open>valueOf\<close> properties that the body itself may shadow, are outside
  the model.
\<close>

datatype jsval = JNull | JBool bool | JNum jsnum | JStr string

text \<open>\<^verbatim>\<open>isNaN(x)\<close> on a number.\<close>

fun is_NaN :: "jsnum \<Rightarrow> bool" where
  "is_NaN NaN = True"
| "is_NaN _ = False"

text \<open>\<^verbatim>\<open>a < b\<close> and \<^verbatim>\<open>a <= b\<close> on numbers: every comparison with NaN is false.\<close>

fun js_lt :: "jsnum \<Rightarrow> jsnum \<Rightarrow> bool" where
  "js_lt NaN _ = False"
| "js_lt _ NaN = False"
| "js_lt (Fin x) (Fin y) = (x < y)"
| "js_lt _ NInf = False"
| "js_lt PInf _ = False"
| "js_lt NInf _ = True"
| "js_lt (Fin x) PInf = True"

fun js_le :: "jsnum \<Rightarrow> jsnum \<Rightarrow> bool" where
  "js_le NaN _ = False"
| "js_le _ NaN = False"
| "js_le (Fin x) (Fin y) = (x \<le> y)"
| "js_le NInf _ = True"
| "js_le _ PInf = True"
| "js_le PInf _ = False"
| "js_le (Fin x) NInf = False"

text \<open>
  The rounding of binary64 arithmetic: the exact result of an operation is rounded to the
  nearest value with a significand of 53 bits, ties going to the even significand; below
  the exponent \<open>-1022\<close> the spacing stays that of the subnormal numbers, and a result
  that rounds to \<open>2^1024\<close> or beyond is an infinity. \<open>exponent x\<close> is the integer \<open>e\<close>
  with \<open>2^e \<le> x < 2^(e+1)\<close>, for a positive \<open>x\<close>.
\<close>

fun ilog2 :: "nat \<Rightarrow> nat" where
  "ilog2 n = (if n < 2 then 0 else Suc (ilog2 (n div 2)))"

declare ilog2.simps [simp del]

definition exponent :: "rat \<Rightarrow> int" where
  "exponent x =
     (if 1 \<le> x then int (ilog2 (nat \<lfloor>x\<rfloor>))
      else - int (Suc (ilog2 (nat \<lceil>1 / x\<rceil> - 1))))"

definition pow2 :: "int \<Rightarrow> rat" where
  "pow2 e = (if 0 \<le> e then 2 ^ nat e else 1 / 2 ^ nat (- e))"

definition round_even :: "rat \<Rightarrow> int" where
  "round_even m =
     (let f = \<lfloor>m\<rfloor>; d = m - of_int f
      in if d < 1 / 2 then f else if 1 / 2 < d then f + 1 else if even f then f else f + 1)"

definition round64 :: "rat \<Rightarrow> jsnum" where
  "round64 x =
     (if x = 0 then Fin 0
      else
        let q = pow2 (max (exponent \<bar>x\<bar>) (- 1022) - 52);
            y = of_int (round_even (x / q)) * q
        in if pow2 1024 \<le> \<bar>y\<bar> then (if 0 < x then PInf else NInf) else Fin y)"

text \<open>\<^verbatim>\<open>a + b\<close> and \<^verbatim>\<open>a - b\<close> on numbers: the exact sum of two finite numbers, rounded.\<close>

fun js_add :: "jsnum \<Rightarrow> jsnum \<Rightarrow> jsnum" where
  "js_add NaN _ = NaN"
| "js_add _ NaN = NaN"
| "js_add (Fin x) (Fin y) = round64 (x + y)"
| "js_add PInf NInf = NaN"
| "js_add NInf PInf = NaN"
| "js_add PInf _ = PInf"
| "js_add _ PInf = PInf"
| "js_add NInf _ = NInf"
| "js_add _ NInf = NInf"

fun js_neg :: "jsnum \<Rightarrow> jsnum" where
  "js_neg NaN = NaN"
| "js_neg PInf = NInf"
| "js_neg NInf = PInf"
| "js_neg (Fin x) = Fin (- x)"

definition js_sub :: "jsnum \<Rightarrow> jsnum \<Rightarrow> jsnum" where
  "js_sub a b = js_add a (js_neg b)"

text \<open>
  The number that \<^verbatim>\<open>JSON.stringify\<close> writes into a request body: a non-finite number
  is written as \<^verbatim>\<open>null\<close>.
\<close>

fun stringify :: "jsnum \<Rightarrow> rat option" where
  "stringify (Fin x) = Some x"
| "stringify _ = None"

text \<open>
  Two parts of the language's coercions are taken as parameters: the parser of
  \<^verbatim>\<open>Number(s)\<close> on a string, and the digits \<^verbatim>\<open>String(x)\<close> prints for a finite number
  that is not an integer below \<open>2^53\<close> in magnitude.
\<close>

record builtins =
  string_to_number :: "string \<Rightarrow> jsnum"
  number_to_string :: "rat \<Rightarrow> string"

text \<open>Decimal digits of an integer, as \<^verbatim>\<open>String(n)\<close> prints a safe integer.\<close>

definition digit :: "nat \<Rightarrow> char" where
  "digit d = ''0123456789'' ! d"

fun nat_to_string :: "nat \<Rightarrow> string" where
  "nat_to_string n =
     (if n < 10 then [digit n] else nat_to_string (n div 10) @ [digit (n mod 10)])"

declare nat_to_string.simps [simp del]

definition int_to_string :: "int \<Rightarrow> string" where
  "int_to_string i =
     (if i < 0 then CHR ''-'' # nat_to_string (nat (- i)) else nat_to_string (nat i))"

definition is_safe_integer :: "rat \<Rightarrow> bool" where
  "is_safe_integer q = (of_int \<lfloor>q\<rfloor> = q \<and> \<bar>q\<bar> < 2 ^ 53)"

fun num_to_string :: "builtins \<Rightarrow> jsnum \<Rightarrow> string" where
  "num_to_string B NaN = ''NaN''"
| "num_to_string B PInf = ''Infinity''"
| "num_to_string B NInf = ''-Infinity''"
| "num_to_string B (Fin q) =
     (if is_safe_integer q then int_to_string \<lfloor>q\<rfloor> else number_to_string B q)"

text \<open>
  \<^verbatim>\<open>String(v)\<close>, which is also the string \<^verbatim>\<open>encodeURIComponent(v)\<close> escapes; the
  backend receives the unescaped path segment, so the escaping itself is the identity of
  the model.
\<close>

fun to_string :: "builtins \<Rightarrow> jsval \<Rightarrow> string" where
  "to_string B JNull = ''null''"
| "to_string B (JBool b) = (if b then ''true'' else ''false'')"
| "to_string B (JNum n) = num_to_string B n"
| "to_string B (JStr s) = s"

text \<open>\<^verbatim>\<open>Number(v)\<close>.\<close>

fun to_number :: "builtins \<Rightarrow> jsval \<Rightarrow> jsnum" where
  "to_number B JNull = Fin 0"
| "to_number B (JBool b) = (if b then Fin 1 else Fin 0)"
| "to_number B (JNum n) = n"
| "to_number B (JStr s) = string_to_number B s"

text \<open>The truth value of a field, as \<^verbatim>\<open>!x\<close> tests it; \<^verbatim>\<open>undefined\<close> is falsy.\<close>

fun truthy :: "jsval option \<Rightarrow> bool" where
  "truthy None = False"
| "truthy (Some JNull) = False"
| "truthy (Some (JBool b)) = b"
| "truthy (Some (JNum n)) = (n \<noteq> NaN \<and> n \<noteq> Fin 0)"
| "truthy (Some (JStr s)) = (s \<noteq> [])"

section \<open>Accounts, responses and the backend\<close>

text \<open>
  The account as the backend serialises it (README: username, kvrcoin, chess points), and
  the row the backend stores, which adds the PIN.
\<close>

record account =
  username :: string
  kvrcoin :: rat
  chess_points :: int

record user_row = account +
  pin :: string

definition user_to_dict :: "user_row \<Rightarrow> account" where
  "user_to_dict r =
     \<lparr>username = username r, kvrcoin = kvrcoin r, chess_points = chess_points r\<rparr>"

text \<open>
  The JSON bodies the handlers send. The body of a backend error that a handler forwards is
  taken to be of the form \<^verbatim>\<open>{error: m}\<close>, as the handlers' own errors are.
\<close>

datatype json_body =
    ErrorBody string
  | MessageBody string
  | MessageUser string "account option"
  | AccountBody "account option"

datatype response = Response nat json_body

text \<open>
  What \<^verbatim>\<open>backendFetch\<close> throws or what is thrown inside a \<^verbatim>\<open>try\<close> block: an error with
  \<^verbatim>\<open>status\<close> and \<^verbatim>\<open>body\<close> (a response that is not ok; the body is its error message,
  \<open>None\<close> for \<^verbatim>\<open>null\<close>), or an error with a message only (a rejected \<^verbatim>\<open>fetch\<close>, a
  TypeError).
\<close>

datatype fetch_error = HttpError nat "string option" | ThrownError string

datatype patch = PatchKvrcoin "rat option" | PatchPin string

datatype call = GetUser string | GetUserByPin string | PatchUser string patch

text \<open>
  Modelled from the spec: the errors the backend answers, whose code (\<^verbatim>\<open>app.py\<close>) is not
  among the sources. The status 404 for an unknown user is the README's. The spec names
  \<open>PinAlreadyInUse\<close> without a status; it is taken as 409, and the refusal of a field
  value as 400. The texts of the messages are the model's own.
\<close>

definition not_found :: fetch_error where
  "not_found = HttpError 404 (Some ''User not found'')"

definition bad_request :: fetch_error where
  "bad_request = HttpError 400 (Some ''Invalid field value'')"

definition PinAlreadyInUse :: fetch_error where
  "PinAlreadyInUse = HttpError 409 (Some ''PinAlreadyInUse'')"

text \<open>
  Modelled from the spec: the two updates that \<^verbatim>\<open>PATCH /users/<username>\<close> makes on the
  backend's table (README, update user fields), for the fields the proxy sends.
\<close>

definition set_kvrcoin :: "string \<Rightarrow> rat \<Rightarrow> user_row list \<Rightarrow> user_row list" where
  "set_kvrcoin u v us = map (\<lambda>r. if username r = u then r\<lparr>kvrcoin := v\<rparr> else r) us"

definition set_pin :: "string \<Rightarrow> string \<Rightarrow> user_row list \<Rightarrow> user_row list" where
  "set_pin u p us = map (\<lambda>r. if username r = u then r\<lparr>pin := p\<rparr> else r) us"

text \<open>
  Modelled from the spec: the Python backend (\<^verbatim>\<open>app.py\<close>) that \<^verbatim>\<open>backendFetch\<close> calls is
  not among the sources. Its endpoints are those of the README: get a user by username,
  get a user by PIN, update fields of a user; an unknown user is answered with 404. From
  the spec's PinIndex contract, an update of the PIN to one that already maps to a
  different username fails with \<open>PinAlreadyInUse\<close>; an update answers with the updated
  account. A \<^verbatim>\<open>null\<close> balance is refused (the README declares its columns
  \<^verbatim>\<open>NOT NULL\<close>); the proxy never sends one. The lookup by PIN answers the first row
  that holds the PIN.
\<close>

fun serve :: "call \<Rightarrow> user_row list \<Rightarrow> (fetch_error + account option) \<times> user_row list" where
  "serve (GetUser u) us =
     (case find (\<lambda>r. username r = u) us of
        None \<Rightarrow> (Inl not_found, us)
      | Some r \<Rightarrow> (Inr (Some (user_to_dict r)), us))"
| "serve (GetUserByPin p) us =
     (case find (\<lambda>r. pin r = p) us of
        None \<Rightarrow> (Inl not_found, us)
      | Some r \<Rightarrow> (Inr (Some (user_to_dict r)), us))"
| "serve (PatchUser u (PatchKvrcoin None)) us =
     (case find (\<lambda>r. username r = u) us of
        None \<Rightarrow> (Inl not_found, us)
      | Some r \<Rightarrow> (Inl bad_request, us))"
| "serve (PatchUser u (PatchKvrcoin (Some v))) us =
     (case find (\<lambda>r. username r = u) us of
        None \<Rightarrow> (Inl not_found, us)
      | Some r \<Rightarrow> (Inr (Some (user_to_dict (r\<lparr>kvrcoin := v\<rparr>))), set_kvrcoin u v us))"
| "serve (PatchUser u (PatchPin p)) us =
     (case find (\<lambda>r. username r = u) us of
        None \<Rightarrow> (Inl not_found, us)
      | Some r \<Rightarrow>
          if list_ex (\<lambda>r'. pin r' = p \<and> username r' \<noteq> u) us then (Inl PinAlreadyInUse, us)
          else (Inr (Some (user_to_dict (r\<lparr>pin := p\<rparr>))), set_pin u p us))"

section \<open>The state of the proxy and of its backend\<close>

text \<open>
  \<open>sessions\<close> is the session store of \<^verbatim>\<open>express-session\<close>, from the session id of a
  request to \<^verbatim>\<open>req.session.user\<close>. \<open>users\<close> is the backend's table. \<open>faults\<close> is the
  schedule of the backend's availability: one entry per coming call, \<open>Some e\<close> when that
  call fails with \<open>e\<close> without reaching the table, \<open>None\<close> (or no entry) when it is
  served. \<open>calls\<close> is the trace of the requests sent to the backend.
\<close>

record world =
  sessions :: "string \<rightharpoonup> string"
  users :: "user_row list"
  faults :: "fetch_error option list"
  calls :: "call list"

text \<open>\<^verbatim>\<open>backendFetch(pathSuffix, opts)\<close> (lines 28 to 42): one request to the backend.\<close>

definition backendFetch :: "call \<Rightarrow> world \<Rightarrow> (fetch_error + account option) \<times> world" where
  "backendFetch c w =
     (let w1 = w\<lparr>calls := calls w @ [c], faults := tl (faults w)\<rparr> in
      case faults w of
        Some e # _ \<Rightarrow> (Inl e, w1)
      | _ \<Rightarrow> (case serve c (users w) of (r, us) \<Rightarrow> (r, w1\<lparr>users := us\<rparr>)))"

text \<open>
  The \<^verbatim>\<open>catch\<close> block shared by the handlers: an error with a truthy status is forwarded
  with its body (or \<^verbatim>\<open>{error: 'backend'}\<close>), any other error is a 500 with its message.
\<close>

fun on_error :: "fetch_error \<Rightarrow> response" where
  "on_error (HttpError st b) =
     (if st \<noteq> 0 then Response st (ErrorBody (case b of Some m \<Rightarrow> m | None \<Rightarrow> ''backend''))
      else Response 500 (ErrorBody ''Backend error''))"
| "on_error (ThrownError m) = Response 500 (ErrorBody m)"

text \<open>\<^verbatim>\<open>await backendFetch(...)\<close> inside \<^verbatim>\<open>try\<close>: a thrown error ends the handler in \<^verbatim>\<open>catch\<close>.\<close>

definition await_fetch ::
  "call \<Rightarrow> world \<Rightarrow> (account option \<Rightarrow> world \<Rightarrow> response \<times> world) \<Rightarrow> response \<times> world" where
  "await_fetch c w k =
     (case backendFetch c w of
        (Inl err, w') \<Rightarrow> (on_error err, w')
      | (Inr x, w') \<Rightarrow> k x w')"

text \<open>The message of the TypeError of reading a property of \<^verbatim>\<open>null\<close>.\<close>

definition null_property :: string where
  "null_property = ''Cannot read properties of null''"

section \<open>The handlers\<close>

text \<open>\<^verbatim>\<open>POST /api/login\<close> (lines 44 to 59).\<close>

definition login ::
  "builtins \<Rightarrow> string \<Rightarrow> jsval option \<Rightarrow> jsval option \<Rightarrow> world \<Rightarrow> response \<times> world" where
  "login B sid uname upin w =
     (case upin of
        None \<Rightarrow> (Response 400 (ErrorBody ''username and pin required''), w)
      | Some p \<Rightarrow>
          if \<not> truthy uname then (Response 400 (ErrorBody ''username and pin required''), w)
          else await_fetch (GetUserByPin (to_string B p)) w (\<lambda>user w1.
            case user of
              None \<Rightarrow> (Response 401 (ErrorBody ''Invalid username or pin''), w1)
            | Some u \<Rightarrow>
                if Some (JStr (username u)) \<noteq> uname
                then (Response 401 (ErrorBody ''Invalid username or pin''), w1)
                else (Response 200 (MessageUser ''ok'' (Some u)),
                      w1\<lparr>sessions := (sessions w1)(sid \<mapsto> username u)\<rparr>)))"

text \<open>\<^verbatim>\<open>POST /api/logout\<close> (lines 61 to 63): the session is destroyed, then the answer sent.\<close>

definition logout :: "string \<Rightarrow> world \<Rightarrow> response \<times> world" where
  "logout sid w =
     (Response 200 (MessageBody ''logged out''), w\<lparr>sessions := (sessions w)(sid := None)\<rparr>)"

text \<open>The test \<^verbatim>\<open>!req.session.user\<close>: no user, or the empty string.\<close>

fun session_user :: "world \<Rightarrow> string \<Rightarrow> string option" where
  "session_user w sid =
     (case sessions w sid of
        None \<Rightarrow> None
      | Some u \<Rightarrow> if u = [] then None else Some u)"

text \<open>\<^verbatim>\<open>GET /api/me\<close> (lines 65 to 75).\<close>

definition me :: "string \<Rightarrow> world \<Rightarrow> response \<times> world" where
  "me sid w =
     (case session_user w sid of
        None \<Rightarrow> (Response 401 (ErrorBody ''not authenticated''), w)
      | Some uname \<Rightarrow>
          await_fetch (GetUser uname) w (\<lambda>user w1. (Response 200 (AccountBody user), w1)))"

text \<open>
  The \<^verbatim>\<open>try\<close> block of \<^verbatim>\<open>POST /api/transfer\<close> (lines 85 to 95). The argument of each
  PATCH is evaluated just before its call, so a \<^verbatim>\<open>null\<close> receiver throws after the first
  PATCH.
\<close>

definition transfer_try :: "string \<Rightarrow> string \<Rightarrow> jsnum \<Rightarrow> world \<Rightarrow> response \<times> world" where
  "transfer_try from to amt w =
     await_fetch (GetUser from) w (\<lambda>sender w1.
     await_fetch (GetUser to) w1 (\<lambda>receiver w2.
       case sender of
         None \<Rightarrow> (on_error (ThrownError null_property), w2)
       | Some s \<Rightarrow>
           if js_lt (Fin (kvrcoin s)) amt
           then (Response 400 (ErrorBody ''insufficient funds''), w2)
           else
             await_fetch
               (PatchUser from (PatchKvrcoin (stringify (js_sub (Fin (kvrcoin s)) amt)))) w2
               (\<lambda>_ w3.
             case receiver of
               None \<Rightarrow> (on_error (ThrownError null_property), w3)
             | Some r \<Rightarrow>
                 await_fetch
                   (PatchUser to (PatchKvrcoin (stringify (js_add (Fin (kvrcoin r)) amt)))) w3
                   (\<lambda>_ w4.
                 await_fetch (GetUser from) w4 (\<lambda>updatedSender w5.
                   (Response 200 (MessageUser ''ok'' updatedSender), w5))))))"

text \<open>\<^verbatim>\<open>POST /api/transfer\<close> (lines 77 to 100).\<close>

definition transfer ::
  "builtins \<Rightarrow> string \<Rightarrow> jsval option \<Rightarrow> jsval option \<Rightarrow> world \<Rightarrow> response \<times> world" where
  "transfer B sid to amount w =
     (case session_user w sid of
        None \<Rightarrow> (Response 401 (ErrorBody ''not authenticated''), w)
      | Some from \<Rightarrow>
          (case (to, amount) of
             (Some t, Some a) \<Rightarrow>
               if \<not> truthy to then (Response 400 (ErrorBody ''to and amount required''), w)
               else
                 let amt = to_number B a in
                 if is_NaN amt \<or> js_le amt (Fin 0)
                 then (Response 400 (ErrorBody ''invalid amount''), w)
                 else transfer_try from (to_string B t) amt w
           | _ \<Rightarrow> (Response 400 (ErrorBody ''to and amount required''), w)))"

text \<open>\<^verbatim>\<open>POST /api/change-pin\<close> (lines 102 to 120).\<close>

definition change_pin ::
  "builtins \<Rightarrow> string \<Rightarrow> jsval option \<Rightarrow> jsval option \<Rightarrow> world \<Rightarrow> response \<times> world" where
  "change_pin B sid new_pin old_pin w =
     (case session_user w sid of
        None \<Rightarrow> (Response 401 (ErrorBody ''not authenticated''), w)
      | Some uname \<Rightarrow>
          (case (new_pin, old_pin) of
             (Some np, Some op) \<Rightarrow>
               await_fetch (GetUserByPin (to_string B op)) w (\<lambda>userByOldPin w1.
                 if (case userByOldPin of None \<Rightarrow> True | Some u \<Rightarrow> username u \<noteq> uname)
                 then (Response 401 (ErrorBody ''Old PIN is incorrect''), w1)
                 else
                   await_fetch (PatchUser uname (PatchPin (to_string B np))) w1 (\<lambda>updated w2.
                     (Response 200 (AccountBody updated), w2)))
           | _ \<Rightarrow> (Response 400 (ErrorBody ''new_pin and old_pin required''), w)))"

text \<open>
  The routes of the proxy that reach the accounts, as one request type, and a run of
  requests handled one after the other. The leaderboard route, which only reads, is left
  out.
\<close>

datatype request =
    Login string "jsval option" "jsval option"
  | Logout string
  | Me string
  | Transfer string "jsval option" "jsval option"
  | ChangePin string "jsval option" "jsval option"

fun handle :: "builtins \<Rightarrow> request \<Rightarrow> world \<Rightarrow> response \<times> world" where
  "handle B (Login sid uname upin) w = login B sid uname upin w"
| "handle B (Logout sid) w = logout sid w"
| "handle B (Me sid) w = me sid w"
| "handle B (Transfer sid to amount) w = transfer B sid to amount w"
| "handle B (ChangePin sid new_pin old_pin) w = change_pin B sid new_pin old_pin w"

definition run :: "builtins \<Rightarrow> request list \<Rightarrow> world \<Rightarrow> world" where
  "run B rqs w = fold (\<lambda>rq w'. snd (handle B rq w')) rqs w"

section \<open>Observations on the backend's table\<close>

text \<open>The balance the backend answers for a username.\<close>

definition balance_of :: "user_row list \<Rightarrow> string \<Rightarrow> rat option" where
  "balance_of us u = map_option kvrcoin (find (\<lambda>r. username r = u) us)"

text \<open>The sum of the balances of two usernames, when both have an account.\<close>

definition pair_total :: "user_row list \<Rightarrow> string \<Rightarrow> string \<Rightarrow> rat option" where
  "pair_total us x y =
     (case (balance_of us x, balance_of us y) of
        (Some a, Some b) \<Rightarrow> Some (a + b)
      | _ \<Rightarrow> None)"

text \<open>No balance of the table is below zero.\<close>

definition nonneg :: "user_row list \<Rightarrow> bool" where
  "nonneg us = list_all (\<lambda>r. 0 \<le> kvrcoin r) us"

text \<open>The usernames of the accounts that a PIN maps to.\<close>

definition holders :: "user_row list \<Rightarrow> string \<Rightarrow> string list" where
  "holders us p = map username (filter (\<lambda>r. pin r = p) us)"

text \<open>The invariants of the data model: usernames are keys, and no two accounts share a PIN.\<close>

definition names_unique :: "user_row list \<Rightarrow> bool" where
  "names_unique us = distinct (map username us)"

definition pins_unique :: "user_row list \<Rightarrow> bool" where
  "pins_unique us = distinct (map pin us)"

section \<open>Example data\<close>

text \<open>
  The scenario of the specification: Alice holds 100 coins, Bob 10; Carol is a third
  account. Session \<open>s1\<close> is Alice's. The example builtins parse no string as a number.
\<close>

definition example_builtins :: builtins where
  "example_builtins = \<lparr>string_to_number = (\<lambda>s. NaN), number_to_string = (\<lambda>q. [])\<rparr>"

definition alice :: user_row where
  "alice = \<lparr>username = ''alice'', kvrcoin = 100, chess_points = 50, pin = ''1111''\<rparr>"

definition bob :: user_row where
  "bob = \<lparr>username = ''bob'', kvrcoin = 10, chess_points = 80, pin = ''2222''\<rparr>"

definition carol :: user_row where
  "carol = \<lparr>username = ''carol'', kvrcoin = 0, chess_points = 80, pin = ''3333''\<rparr>"

definition example_world :: world where
  "example_world =
     \<lparr>sessions = [''s1'' \<mapsto> ''alice''], users = [alice, bob, carol], faults = [], calls = []\<rparr>"

text \<open>The same world with a backend that fails its fourth call: the credit of a transfer.\<close>

definition credit_outage :: world where
  "credit_outage =
     example_world\<lparr>faults := [None, None, None, Some (ThrownError ''connect ECONNREFUSED'')]\<rparr>"

text \<open>
  A world in which Alice holds \<open>10^17\<close> coins, a binary64 value whose neighbours are 16
  apart.
\<close>

definition large_world :: world where
  "large_world = example_world\<lparr>users := [alice\<lparr>kvrcoin := 10 ^ 17\<rparr>, bob, carol]\<rparr>"

section \<open>Facts about rounding\<close>

lemma floor_rat_numeral_div:
  "\<lfloor>(numeral a :: rat) / numeral b\<rfloor> = numeral a div numeral b"
  by (metis floor_divide_of_int_eq of_int_numeral)

lemma floor_rat_neg_numeral_div:
  "\<lfloor>- (numeral a :: rat) / numeral b\<rfloor> = - numeral a div numeral b"
  by (metis divide_minus_left floor_divide_of_int_eq of_int_neg_numeral of_int_numeral)

lemma ceiling_rat_numeral_div:
  "\<lceil>(numeral a :: rat) / numeral b\<rceil> = - (- numeral a div numeral b)"
  unfolding ceiling_def
  by (metis divide_minus_left floor_divide_of_int_eq of_int_neg_numeral of_int_numeral)

lemmas round64_defs = round64_def exponent_def pow2_def round_even_def ilog2.simps Let_def
  floor_rat_numeral_div floor_rat_neg_numeral_div ceiling_rat_numeral_div

lemma pow2_pos: "0 < pow2 e"
  by (simp add: pow2_def)

lemma round_even_nonneg: "0 \<le> m \<Longrightarrow> 0 \<le> round_even m"
  by (auto simp: round_even_def Let_def)

lemma round_even_of_int: "round_even (of_int k) = k"
  by (simp add: round_even_def)

text \<open>Rounding keeps the sign: a result that is not negative is not rounded below zero.\<close>

lemma round64_nonneg: "0 \<le> x \<Longrightarrow> round64 x = Fin y \<Longrightarrow> 0 \<le> y"
  by (auto simp: round64_def Let_def pow2_pos round_even_nonneg less_imp_le split: if_splits)

lemma ilog2_less: "n < 2 ^ Suc k \<Longrightarrow> ilog2 n \<le> k"
proof (induction k arbitrary: n)
  case 0
  then show ?case by (simp add: ilog2.simps)
next
  case (Suc k)
  show ?case
  proof (cases "n < 2")
    case True
    then show ?thesis by (simp add: ilog2.simps)
  next
    case False
    from Suc.prems have "n div 2 < 2 ^ Suc k" by simp
    from Suc.IH [OF this] False show ?thesis by (simp add: ilog2.simps [of n])
  qed
qed

text \<open>An integer below \<open>2^53\<close> in magnitude is a binary64 value: rounding leaves it.\<close>

lemma round64_of_int:
  assumes "\<bar>n\<bar> < 2 ^ 53"
  shows "round64 (of_int n) = Fin (of_int n)"
proof (cases "n = 0")
  case True
  then show ?thesis by (simp add: round64_def)
next
  case False
  define m where "m = nat \<bar>n\<bar>"
  define e where "e = ilog2 m"
  define k where "k = 52 - e"
  from assms have "m < 2 ^ Suc 52"
    unfolding m_def by (simp add: nat_less_iff)
  then have e52: "e \<le> 52"
    unfolding e_def by (rule ilog2_less)
  from False have one: "1 \<le> \<bar>rat_of_int n\<bar>"
    by (metis abs_ge_zero dual_order.strict_iff_order int_one_le_iff_zero_less of_int_1_le_iff of_int_abs zero_less_abs_iff)
  have fl: "nat \<lfloor>\<bar>rat_of_int n\<bar>\<rfloor> = m"
    unfolding m_def by (metis floor_of_int of_int_abs)
  from one fl have ex: "exponent \<bar>rat_of_int n\<bar> = int e"
    by (simp add: exponent_def e_def)
  from e52 have q: "pow2 (max (int e) (- 1022) - 52) = 1 / 2 ^ k"
    by (auto simp: pow2_def k_def max_def nat_diff_distrib)
  have scaled: "rat_of_int n / (1 / 2 ^ k) = of_int (n * 2 ^ k)"
    by simp
  have unscaled: "rat_of_int (n * 2 ^ k) * (1 / 2 ^ k) = of_int n"
    by simp
  from assms have "\<bar>rat_of_int n\<bar> < 2 ^ 53"
    by (metis of_int_abs of_int_less_numeral_power_cancel_iff)
  also have "(2::rat) ^ 53 \<le> 2 ^ 1024"
    by (rule power_increasing) simp_all
  finally have small: "\<not> pow2 1024 \<le> \<bar>rat_of_int n\<bar>"
    by (simp add: pow2_def)
  from False show ?thesis
    unfolding round64_def Let_def ex q scaled round_even_of_int unscaled
    using small by simp
qed

section \<open>Facts about the backend and about awaiting it\<close>

lemmas example_defs = example_world_def example_builtins_def alice_def bob_def carol_def

lemmas run_defs =
  transfer_def transfer_try_def change_pin_def login_def me_def logout_def await_fetch_def
  backendFetch_def set_kvrcoin_def set_pin_def user_to_dict_def balance_of_def
  not_found_def bad_request_def PinAlreadyInUse_def js_sub_def round64_defs

lemmas digits_defs = is_safe_integer_def int_to_string_def nat_to_string.simps digit_def

lemma serve_Inl: "serve c us = (Inl e, us') \<Longrightarrow> us' = us"
  by (induction c us rule: serve.induct) (auto split: option.splits if_splits)

lemma serve_GetUser_Inr:
  "serve (GetUser u) us = (Inr x, us') \<Longrightarrow>
     us' = us \<and> (\<exists>r. find (\<lambda>r. username r = u) us = Some r \<and> x = Some (user_to_dict r))"
  by (auto split: option.splits)

lemma serve_PatchKvrcoin_Inr:
  "serve (PatchUser u (PatchKvrcoin v)) us = (Inr x, us') \<Longrightarrow>
     \<exists>q. v = Some q \<and> us' = set_kvrcoin u q us"
  by (cases v) (auto split: option.splits)

lemma backendFetch_Inl:
  "backendFetch c w = (Inl e, w1) \<Longrightarrow> users w1 = users w \<and> sessions w1 = sessions w"
  by (auto simp: backendFetch_def Let_def split: list.splits option.splits prod.splits dest: serve_Inl)

lemma backendFetch_Inr:
  "backendFetch c w = (Inr x, w1) \<Longrightarrow>
     serve c (users w) = (Inr x, users w1) \<and> sessions w1 = sessions w \<and> calls w1 = calls w @ [c]"
  by (auto simp: backendFetch_def Let_def split: list.splits option.splits prod.splits)

lemma fetch_GetUser:
  "backendFetch (GetUser u) w = (res, w1) \<Longrightarrow>
     users w1 = users w \<and> sessions w1 = sessions w \<and>
     (case res of Inl e \<Rightarrow> True
      | Inr x \<Rightarrow> \<exists>r. x = Some r \<and> balance_of (users w) u = Some (kvrcoin r))"
  by (cases res)
     (auto dest!: backendFetch_Inl backendFetch_Inr serve_GetUser_Inr
           simp: balance_of_def user_to_dict_def)

lemma fetch_GetUserByPin:
  "backendFetch (GetUserByPin p) w = (res, w1) \<Longrightarrow>
     users w1 = users w \<and> sessions w1 = sessions w \<and>
     (case res of Inl e \<Rightarrow> True
      | Inr x \<Rightarrow> \<exists>r. x = Some (user_to_dict r) \<and> find (\<lambda>r. pin r = p) (users w) = Some r)"
  by (cases res)
     (auto simp: backendFetch_def Let_def split: list.splits option.splits prod.splits)

lemma fetch_PatchKvrcoin:
  "backendFetch (PatchUser u (PatchKvrcoin v)) w = (res, w1) \<Longrightarrow>
     sessions w1 = sessions w \<and>
     (case res of Inl e \<Rightarrow> users w1 = users w
      | Inr x \<Rightarrow> \<exists>q. v = Some q \<and> users w1 = set_kvrcoin u q (users w))"
  by (cases res) (auto dest!: backendFetch_Inl backendFetch_Inr serve_PatchKvrcoin_Inr)

lemma fetch_PatchPin:
  "backendFetch (PatchUser u (PatchPin p)) w = (res, w1) \<Longrightarrow>
     sessions w1 = sessions w \<and>
     (case res of Inl e \<Rightarrow> users w1 = users w
      | Inr x \<Rightarrow> users w1 = set_pin u p (users w) \<and>
          (\<exists>r. find (\<lambda>r. username r = u) (users w) = Some r) \<and>
          \<not> list_ex (\<lambda>r'. pin r' = p \<and> username r' \<noteq> u) (users w))"
  by (cases res)
     (auto simp: backendFetch_def Let_def split: list.splits option.splits prod.splits if_splits)

lemma await_fetch_available:
  "faults w = [] \<Longrightarrow>
     await_fetch c w k =
       (case serve c (users w) of
          (Inl e, us) \<Rightarrow> (on_error e, w\<lparr>calls := calls w @ [c], faults := [], users := us\<rparr>)
        | (Inr x, us) \<Rightarrow> k x (w\<lparr>calls := calls w @ [c], faults := [], users := us\<rparr>))"
  by (auto simp: await_fetch_def backendFetch_def Let_def split: prod.splits sum.splits)

lemma on_error_not_ok [simp]: "on_error e \<noteq> Response st (MessageUser m a)"
  by (cases e) auto

lemma on_error_not_ok' [simp]: "Response st (MessageUser m a) \<noteq> on_error e"
  by (cases e) auto

section \<open>Facts about the table and about amounts\<close>

lemma balance_of_set_kvrcoin:
  "balance_of (set_kvrcoin u v us) u' =
     (if u' = u then map_option (\<lambda>_. v) (balance_of us u) else balance_of us u')"
  by (induction us) (auto simp: balance_of_def set_kvrcoin_def)

lemma balance_of_find:
  "balance_of us u = Some s \<Longrightarrow> \<exists>r. find (\<lambda>r. username r = u) us = Some r \<and> kvrcoin r = s"
  by (auto simp: balance_of_def)

lemma find_set_kvrcoin:
  "find (\<lambda>r. username r = u') (set_kvrcoin u v us) =
     map_option (\<lambda>r. if username r = u then r\<lparr>kvrcoin := v\<rparr> else r)
       (find (\<lambda>r. username r = u') us)"
  by (induction us) (auto simp: set_kvrcoin_def)

lemma find_set_pin:
  "find (\<lambda>r. username r = u') (set_pin u p us) =
     map_option (\<lambda>r. if username r = u then r\<lparr>pin := p\<rparr> else r)
       (find (\<lambda>r. username r = u') us)"
  by (induction us) (auto simp: set_pin_def)

lemma nonneg_balance: "nonneg us \<Longrightarrow> balance_of us u = Some s \<Longrightarrow> 0 \<le> s"
  by (induction us) (auto simp: nonneg_def balance_of_def split: if_splits)

lemma nonneg_set_kvrcoin: "nonneg us \<Longrightarrow> 0 \<le> v \<Longrightarrow> nonneg (set_kvrcoin u v us)"
  by (induction us) (auto simp: nonneg_def set_kvrcoin_def)

lemma nonneg_set_pin: "nonneg (set_pin u p us) = nonneg us"
  by (induction us) (auto simp: nonneg_def set_pin_def)

lemma holders_set_pin_new:
  assumes "\<not> list_ex (\<lambda>r. pin r = p \<and> username r \<noteq> u) us"
  shows "holders (set_pin u p us) p = filter (\<lambda>n. n = u) (map username us)"
  using assms by (induction us) (auto simp: holders_def set_pin_def)

lemma holders_set_pin_old:
  assumes "q \<noteq> p"
  shows "holders (set_pin u p us) q = holders (filter (\<lambda>r. username r \<noteq> u) us) q"
  using assms by (induction us) (auto simp: holders_def set_pin_def)

lemma filter_eq_distinct: "distinct xs \<Longrightarrow> x \<in> set xs \<Longrightarrow> filter (\<lambda>n. n = x) xs = [x]"
  by (induction xs) (auto simp: filter_empty_conv)

lemma find_pin_unique:
  assumes "distinct (map pin us)" "find (\<lambda>r. pin r = q) us = Some x" "r \<in> set us" "pin r = q"
  shows "r = x"
  using assms by (induction us) (auto split: if_splits simp: image_iff)

lemma stringify_Some: "stringify x = Some q \<longleftrightarrow> x = Fin q"
  by (cases x) auto

lemma stringify_sub:
  "stringify (js_sub (Fin s) amt) = Some q \<Longrightarrow> \<exists>a. amt = Fin a \<and> round64 (s - a) = Fin q"
  by (cases amt) (auto simp: js_sub_def stringify_Some)

lemma stringify_add:
  "stringify (js_add (Fin r) amt) = Some q \<Longrightarrow> \<exists>a. amt = Fin a \<and> round64 (r + a) = Fin q"
  by (cases amt) (auto simp: stringify_Some)

lemma js_lt_valid: "0 \<le> s \<Longrightarrow> js_lt (Fin s) amt \<Longrightarrow> \<not> is_NaN amt \<and> \<not> js_le amt (Fin 0)"
  by (cases amt) auto

lemma valid_amount_cases:
  assumes "\<not> is_NaN amt" "\<not> js_le amt (Fin 0)" "\<not> js_lt (Fin s) amt"
  obtains a where "amt = Fin a" "0 < a" "a \<le> s"
  using assms by (cases amt) auto

section \<open>The transfer handler, step by step\<close>

text \<open>
  A request either ends before the \<^verbatim>\<open>try\<close> block, with an error answer and the state
  untouched, or enters it with a session user, a destination and a valid amount.
\<close>

lemma transfer_reaches_try:
  assumes "transfer B sid to amount w = (resp, w')"
  obtains (rejected) st m where "w' = w" "resp = Response st (ErrorBody m)"
    | (tried) "from" t v where "session_user w sid = Some from" "to = Some t" "amount = Some v"
        "\<not> is_NaN (to_number B v)" "\<not> js_le (to_number B v) (Fin 0)"
        "transfer_try from (to_string B t) (to_number B v) w = (resp, w')"
  using assms unfolding transfer_def
  by (auto simp: Let_def split: option.splits if_splits)

text \<open>
  The only path to the answer \<^verbatim>\<open>ok\<close>: both reads, the test of the funds, both writes
  and the last read.
\<close>

lemma transfer_try_ok_trace:
  assumes ok: "transfer_try from to amt w = (Response 200 (MessageUser m acc), w')"
  obtains s r w1 w2 x3 w3 x4 w4 where
    "backendFetch (GetUser from) w = (Inr (Some s), w1)"
    "backendFetch (GetUser to) w1 = (Inr (Some r), w2)"
    "\<not> js_lt (Fin (kvrcoin s)) amt"
    "backendFetch (PatchUser from (PatchKvrcoin (stringify (js_sub (Fin (kvrcoin s)) amt)))) w2
       = (Inr x3, w3)"
    "backendFetch (PatchUser to (PatchKvrcoin (stringify (js_add (Fin (kvrcoin r)) amt)))) w3
       = (Inr x4, w4)"
    "backendFetch (GetUser from) w4 = (Inr acc, w')"
  using ok unfolding transfer_try_def await_fetch_def
  by (auto split: prod.splits sum.splits option.splits if_splits)

lemma transfer_try_ok:
  assumes ok: "transfer_try from to amt w = (Response 200 (MessageUser m acc), w')"
    and ne: "to \<noteq> from"
  shows "\<exists>a s r d c. amt = Fin a \<and> a \<le> s \<and>
           balance_of (users w) from = Some s \<and> balance_of (users w) to = Some r \<and>
           round64 (s - a) = Fin d \<and> round64 (r + a) = Fin c \<and>
           balance_of (users w') from = Some d \<and> balance_of (users w') to = Some c"
proof -
  from ok obtain s r w1 w2 x3 w3 x4 w4 where
    f1: "backendFetch (GetUser from) w = (Inr (Some s), w1)" and
    f2: "backendFetch (GetUser to) w1 = (Inr (Some r), w2)" and
    funds: "\<not> js_lt (Fin (kvrcoin s)) amt" and
    f3: "backendFetch (PatchUser from (PatchKvrcoin (stringify (js_sub (Fin (kvrcoin s)) amt)))) w2
       = (Inr x3, w3)" and
    f4: "backendFetch (PatchUser to (PatchKvrcoin (stringify (js_add (Fin (kvrcoin r)) amt)))) w3
       = (Inr x4, w4)" and
    f5: "backendFetch (GetUser from) w4 = (Inr acc, w')"
    by (rule transfer_try_ok_trace)
  from f1 have u1: "users w1 = users w" and b1: "balance_of (users w) from = Some (kvrcoin s)"
    by (auto dest!: backendFetch_Inr serve_GetUser_Inr simp: balance_of_def user_to_dict_def)
  from f2 have u2: "users w2 = users w1" and b2: "balance_of (users w1) to = Some (kvrcoin r)"
    by (auto dest!: backendFetch_Inr serve_GetUser_Inr simp: balance_of_def user_to_dict_def)
  from f3 obtain d where q3: "stringify (js_sub (Fin (kvrcoin s)) amt) = Some d"
      and u3: "users w3 = set_kvrcoin from d (users w2)"
    by (auto dest!: backendFetch_Inr serve_PatchKvrcoin_Inr)
  from f4 obtain c where q4: "stringify (js_add (Fin (kvrcoin r)) amt) = Some c"
      and u4: "users w4 = set_kvrcoin to c (users w3)"
    by (auto dest!: backendFetch_Inr serve_PatchKvrcoin_Inr)
  from f5 have u5: "users w' = users w4"
    by (auto dest!: backendFetch_Inr serve_GetUser_Inr)
  from stringify_sub [OF q3] obtain a where a: "amt = Fin a"
    and d: "round64 (kvrcoin s - a) = Fin d"
    by blast
  from stringify_add [OF q4] a have c: "round64 (kvrcoin r + a) = Fin c"
    by auto
  from funds a have le: "a \<le> kvrcoin s"
    by simp
  show ?thesis
    using a le b1 b2 ne d c
    by (auto simp: u1 u2 u3 u4 u5 balance_of_set_kvrcoin)
qed

text \<open>
  Whatever the backend's failures, the table after the \<^verbatim>\<open>try\<close> block is the old one,
  the old one with the debit, or the old one with the debit and the credit; a table
  that changed had a finite amount within the sender's balance.
\<close>

lemma transfer_try_outcomes:
  assumes "transfer_try from to amt w = (resp, w')"
  shows "users w' = users w
    \<or> (\<exists>a s d e. amt = Fin a \<and> balance_of (users w) from = Some s \<and>
          round64 (s - a) = Fin d \<and>
          resp = on_error e \<and> users w' = set_kvrcoin from d (users w))
    \<or> (\<exists>a s r d c. amt = Fin a \<and> balance_of (users w) from = Some s \<and>
          balance_of (users w) to = Some r \<and>
          round64 (s - a) = Fin d \<and> round64 (r + a) = Fin c \<and>
          users w' = set_kvrcoin to c (set_kvrcoin from d (users w)))"
  using assms unfolding transfer_try_def await_fetch_def
  apply (auto split: prod.splits sum.splits option.splits if_splits
      dest!: fetch_GetUser fetch_PatchKvrcoin stringify_sub stringify_add)
  by blast+

lemma transfer_try_funds:
  assumes "transfer_try from to amt w = (resp, w')" and "users w' \<noteq> users w"
  shows "case amt of Fin a \<Rightarrow>
           (case balance_of (users w) from of Some s \<Rightarrow> a \<le> s | None \<Rightarrow> False)
         | _ \<Rightarrow> False"
  using assms unfolding transfer_try_def await_fetch_def
  by (auto split: prod.splits sum.splits option.splits if_splits
      dest!: fetch_GetUser fetch_PatchKvrcoin stringify_sub stringify_add)

lemma transfer_try_table:
  assumes run: "transfer_try from to amt w = (resp, w')" and changed: "users w' \<noteq> users w"
  obtains (debit) a s d e where "amt = Fin a" "a \<le> s" "balance_of (users w) from = Some s"
      "round64 (s - a) = Fin d" "resp = on_error e" "users w' = set_kvrcoin from d (users w)"
    | (both) a s r d c where "amt = Fin a" "a \<le> s" "balance_of (users w) from = Some s"
      "balance_of (users w) to = Some r" "round64 (s - a) = Fin d" "round64 (r + a) = Fin c"
      "users w' = set_kvrcoin to c (set_kvrcoin from d (users w))"
proof -
  from transfer_try_funds [OF run changed]
  obtain a s where a: "amt = Fin a" and s: "balance_of (users w) from = Some s" and le: "a \<le> s"
    by (auto split: jsnum.splits option.splits)
  from transfer_try_outcomes [OF run] changed a s
  consider d e where "round64 (s - a) = Fin d" "resp = on_error e"
      "users w' = set_kvrcoin from d (users w)"
    | r d c where "balance_of (users w) to = Some r" "round64 (s - a) = Fin d"
        "round64 (r + a) = Fin c" "users w' = set_kvrcoin to c (set_kvrcoin from d (users w))"
    by auto
  then show ?thesis
  proof cases
    case 1
    with a s le show ?thesis by (intro debit)
  next
    case 2
    with a s le show ?thesis by (intro both)
  qed
qed

text \<open>
  The two rejections of a request with an available backend, and the acceptance of a
  valid transfer to oneself.
\<close>

lemma transfer_invalid_amount:
  assumes "is_NaN (to_number B v) \<or> js_le (to_number B v) (Fin 0)"
    and "session_user w sid = Some u" and "truthy (Some t)"
  shows "transfer B sid (Some t) (Some v) w = (Response 400 (ErrorBody ''invalid amount''), w)"
  using assms unfolding transfer_def
  by (auto simp del: session_user.simps truthy.simps)

lemma transfer_invalid_amount_untouched:
  assumes "is_NaN (to_number B v) \<or> js_le (to_number B v) (Fin 0)"
  shows "snd (transfer B sid to (Some v) w) = w"
  using assms unfolding transfer_def
  by (auto simp del: session_user.simps truthy.simps split: option.splits)

lemma transfer_short_of_funds:
  assumes "faults w = []" "session_user w sid = Some from" "truthy (Some t)"
    "balance_of (users w) from = Some s" "balance_of (users w) (to_string B t) = Some r"
    "js_lt (Fin s) (to_number B v)" "0 \<le> s"
  shows "fst (transfer B sid (Some t) (Some v) w) = Response 400 (ErrorBody ''insufficient funds'')
       \<and> users (snd (transfer B sid (Some t) (Some v) w)) = users w
       \<and> sessions (snd (transfer B sid (Some t) (Some v) w)) = sessions w"
proof -
  from assms(4) obtain rs where rs: "find (\<lambda>r. username r = from) (users w) = Some rs" "kvrcoin rs = s"
    by (auto dest: balance_of_find)
  from assms(5) obtain rr where rr: "find (\<lambda>r. username r = to_string B t) (users w) = Some rr"
    by (auto dest: balance_of_find)
  from js_lt_valid [OF assms(7,6)] have valid: "\<not> is_NaN (to_number B v)" "\<not> js_le (to_number B v) (Fin 0)"
    by simp_all
  show ?thesis
    using assms(1,2,3,6) rs rr valid
    by (simp add: transfer_def transfer_try_def await_fetch_available user_to_dict_def
        del: session_user.simps truthy.simps)
qed

lemma valid_self_transfer_ok:
  assumes av: "faults w = []" and sess: "session_user w sid = Some from"
    and self: "to_string B t = from" and tr: "truthy (Some t)"
    and bal: "balance_of (users w) from = Some s"
    and valid: "\<not> is_NaN (to_number B v)" "\<not> js_le (to_number B v) (Fin 0)"
    and funds: "\<not> js_lt (Fin s) (to_number B v)"
    and finite: "stringify (js_sub (Fin s) (to_number B v)) \<noteq> None"
      "stringify (js_add (Fin s) (to_number B v)) \<noteq> None"
  shows "\<exists>acc. fst (transfer B sid (Some t) (Some v) w) = Response 200 (MessageUser ''ok'' acc)"
proof -
  from bal obtain rs where rs: "find (\<lambda>r. username r = from) (users w) = Some rs" "kvrcoin rs = s"
    by (auto dest: balance_of_find)
  from finite obtain d c where dc: "stringify (js_sub (Fin s) (to_number B v)) = Some d"
    "stringify (js_add (Fin s) (to_number B v)) = Some c"
    by auto
  from rs have nm: "username rs = from"
    by (auto dest: find_Some_iff [THEN iffD1])
  show ?thesis
    using av sess self tr rs nm valid funds dc
    by (simp add: transfer_def transfer_try_def await_fetch_available user_to_dict_def
        find_set_kvrcoin
        del: session_user.simps truthy.simps)
qed

text \<open>
  A transfer that passes every check, under three schedules of the backend: a failure of
  one of the first three calls (the two reads, the debit), and a failure of the fourth
  (the credit).
\<close>

lemma transfer_early_failure:
  assumes sess: "session_user w sid = Some from" and tr: "truthy (Some t)"
    and amt: "to_number B v = Fin a" "0 < a" "a \<le> s"
    and bal: "balance_of (users w) from = Some s" "balance_of (users w) (to_string B t) = Some r"
    and d: "round64 (s - a) = Fin d"
    and early: "faults w = Some e # fs \<or> faults w = None # Some e # fs
      \<or> faults w = None # None # Some e # fs"
  shows "fst (transfer B sid (Some t) (Some v) w) = on_error e"
    and "users (snd (transfer B sid (Some t) (Some v) w)) = users w"
proof -
  from bal(1) obtain rs where rs: "find (\<lambda>r. username r = from) (users w) = Some rs"
    "kvrcoin rs = s"
    by (auto dest: balance_of_find)
  from bal(2) obtain rr where rr: "find (\<lambda>r. username r = to_string B t) (users w) = Some rr"
    by (auto dest: balance_of_find)
  from d have sub: "js_sub (Fin s) (Fin a) = Fin d"
    by (simp add: js_sub_def)
  have "fst (transfer B sid (Some t) (Some v) w) = on_error e
      \<and> users (snd (transfer B sid (Some t) (Some v) w)) = users w"
    using early sess tr amt rs rr sub
    by (auto simp add: transfer_def transfer_try_def await_fetch_def backendFetch_def Let_def
        user_to_dict_def
        simp del: session_user.simps truthy.simps on_error.simps)
  then show "fst (transfer B sid (Some t) (Some v) w) = on_error e"
    and "users (snd (transfer B sid (Some t) (Some v) w)) = users w"
    by simp_all
qed

lemma transfer_credit_failure:
  assumes sess: "session_user w sid = Some from" and tr: "truthy (Some t)"
    and amt: "to_number B v = Fin a" "0 < a" "a \<le> s"
    and bal: "balance_of (users w) from = Some s" "balance_of (users w) (to_string B t) = Some r"
    and d: "round64 (s - a) = Fin d"
    and late: "faults w = None # None # None # Some e # fs"
  shows "fst (transfer B sid (Some t) (Some v) w) = on_error e"
    and "users (snd (transfer B sid (Some t) (Some v) w)) = set_kvrcoin from d (users w)"
proof -
  from bal(1) obtain rs where rs: "find (\<lambda>r. username r = from) (users w) = Some rs"
    "kvrcoin rs = s"
    by (auto dest: balance_of_find)
  from bal(2) obtain rr where rr: "find (\<lambda>r. username r = to_string B t) (users w) = Some rr"
    by (auto dest: balance_of_find)
  from d have sub: "js_sub (Fin s) (Fin a) = Fin d"
    by (simp add: js_sub_def)
  have "fst (transfer B sid (Some t) (Some v) w) = on_error e
      \<and> users (snd (transfer B sid (Some t) (Some v) w)) = set_kvrcoin from d (users w)"
    using late sess tr amt rs rr sub
    by (simp add: transfer_def transfer_try_def await_fetch_def backendFetch_def Let_def
        user_to_dict_def
        del: session_user.simps truthy.simps on_error.simps)
  then show "fst (transfer B sid (Some t) (Some v) w) = on_error e"
    and "users (snd (transfer B sid (Some t) (Some v) w)) = set_kvrcoin from d (users w)"
    by simp_all
qed

lemma transfer_refresh_failure:
  assumes sess: "session_user w sid = Some from" and tr: "truthy (Some t)"
    and amt: "to_number B v = Fin a" "0 < a" "a \<le> s"
    and bal: "balance_of (users w) from = Some s" "balance_of (users w) (to_string B t) = Some r"
    and d: "round64 (s - a) = Fin d" and c: "round64 (r + a) = Fin c"
    and last: "faults w = None # None # None # None # Some e # fs"
  shows "fst (transfer B sid (Some t) (Some v) w) = on_error e"
    and "users (snd (transfer B sid (Some t) (Some v) w))
      = set_kvrcoin (to_string B t) c (set_kvrcoin from d (users w))"
proof -
  from bal(1) obtain rs where rs: "find (\<lambda>r. username r = from) (users w) = Some rs"
    "kvrcoin rs = s"
    by (auto dest: balance_of_find)
  from bal(2) obtain rr where rr: "find (\<lambda>r. username r = to_string B t) (users w) = Some rr"
    "kvrcoin rr = r"
    by (auto dest: balance_of_find)
  from d have sub: "js_sub (Fin s) (Fin a) = Fin d"
    by (simp add: js_sub_def)
  have "fst (transfer B sid (Some t) (Some v) w) = on_error e
      \<and> users (snd (transfer B sid (Some t) (Some v) w))
        = set_kvrcoin (to_string B t) c (set_kvrcoin from d (users w))"
    using last sess tr amt rs rr sub c
    by (simp add: transfer_def transfer_try_def await_fetch_def backendFetch_def Let_def
        user_to_dict_def find_set_kvrcoin
        del: session_user.simps truthy.simps on_error.simps)
  then show "fst (transfer B sid (Some t) (Some v) w) = on_error e"
    and "users (snd (transfer B sid (Some t) (Some v) w))
      = set_kvrcoin (to_string B t) c (set_kvrcoin from d (users w))"
    by simp_all
qed

text \<open>
  The handlers keep every balance at or above zero.
\<close>

lemma transfer_nonneg:
  assumes inv: "nonneg (users w)"
  shows "nonneg (users (snd (transfer B sid to amount w)))"
proof -
  obtain resp w' where run: "transfer B sid to amount w = (resp, w')"
    by (cases "transfer B sid to amount w")
  from run have "nonneg (users w')"
  proof (cases rule: transfer_reaches_try)
    case rejected
    with inv show ?thesis by simp
  next
    case (tried "from" t v)
    show ?thesis
    proof (cases "users w' = users w")
      case True
      with inv show ?thesis by simp
    next
      case False
      from tried(6) False show ?thesis
      proof (cases rule: transfer_try_table)
        case (debit a s d e)
        from debit(2,4) round64_nonneg [of "s - a" d] have "0 \<le> d" by simp
        with inv debit show ?thesis by (simp add: nonneg_set_kvrcoin)
      next
        case (both a s r d c)
        from both(2,5) round64_nonneg [of "s - a" d] have d: "0 \<le> d" by simp
        from tried(5) both(1) have "0 < a" by simp
        with nonneg_balance [OF inv both(4)] have "0 \<le> r + a" by simp
        with both(6) round64_nonneg [of "r + a" c] have "0 \<le> c" by simp
        with inv both d show ?thesis by (simp add: nonneg_set_kvrcoin)
      qed
    qed
  qed
  with run show ?thesis by simp
qed

lemma login_users: "users (snd (login B sid uname upin w)) = users w"
  unfolding login_def await_fetch_def
  by (auto split: option.splits prod.splits sum.splits dest!: fetch_GetUserByPin)

lemma me_users: "users (snd (me sid w)) = users w"
  unfolding me_def await_fetch_def
  by (auto split: option.splits prod.splits sum.splits dest!: fetch_GetUser)

lemma change_pin_nonneg: "nonneg (users w) \<Longrightarrow> nonneg (users (snd (change_pin B sid np op w)))"
  unfolding change_pin_def await_fetch_def
  by (auto split: option.splits prod.splits sum.splits if_splits
      dest!: fetch_PatchPin fetch_GetUserByPin simp: nonneg_set_pin)

lemma handle_nonneg: "nonneg (users w) \<Longrightarrow> nonneg (users (snd (handle B rq w)))"
  by (cases rq) (simp_all add: login_users me_users logout_def transfer_nonneg change_pin_nonneg)

lemma run_nonneg: "nonneg (users w) \<Longrightarrow> nonneg (users (run B rqs w))"
  unfolding run_def by (induction rqs arbitrary: w) (simp_all add: handle_nonneg)

text \<open>
  The change of PIN: the only path to its answer of success, the refusal of a PIN in
  use, the accounts a PIN maps to afterwards, and the old PIN as the condition of every
  change of the table.
\<close>

lemma change_pin_ok_trace:
  assumes "change_pin B sid new_pin old_pin w = (Response 200 (AccountBody acc), w')"
  obtains u np op x w1 where "session_user w sid = Some u" "new_pin = Some np" "old_pin = Some op"
    "backendFetch (GetUserByPin (to_string B op)) w = (Inr (Some x), w1)" "username x = u"
    "backendFetch (PatchUser u (PatchPin (to_string B np))) w1 = (Inr acc, w')"
proof -
  have ne: "\<And>e. on_error e \<noteq> Response 200 (AccountBody acc)"
  proof -
    fix e show "on_error e \<noteq> Response 200 (AccountBody acc)" by (cases e) auto
  qed
  show ?thesis
    using assms that unfolding change_pin_def await_fetch_def
    by (auto simp: ne simp del: session_user.simps
        split: option.splits prod.splits sum.splits if_splits)
qed

lemma change_pin_in_use:
  assumes "faults w = []" "session_user w sid = Some u"
    "find (\<lambda>r. pin r = to_string B op) (users w) = Some x" "username x = u"
    "list_ex (\<lambda>r. pin r = to_string B np \<and> username r \<noteq> u) (users w)"
  shows "change_pin B sid (Some np) (Some op) w =
     (on_error PinAlreadyInUse,
      w\<lparr>calls := calls w @ [GetUserByPin (to_string B op), PatchUser u (PatchPin (to_string B np))],
        faults := [], users := users w\<rparr>)"
proof -
  from assms(3,4) have "\<exists>r. find (\<lambda>r. username r = u) (users w) = Some r"
    by (cases "find (\<lambda>r. username r = u) (users w)") (auto simp: find_None_iff find_Some_iff)
  then obtain r where r: "find (\<lambda>r. username r = u) (users w) = Some r" ..
  show ?thesis
    using assms r
    by (simp add: change_pin_def await_fetch_available user_to_dict_def
        del: session_user.simps on_error.simps)
qed

lemma change_pin_holders:
  assumes ok: "change_pin B sid new_pin old_pin w = (Response 200 (AccountBody acc), w')"
    and names: "names_unique (users w)" and pins: "pins_unique (users w)"
  shows "\<exists>u np op. session_user w sid = Some u \<and> new_pin = Some np \<and> old_pin = Some op \<and>
      holders (users w') (to_string B np) = [u] \<and>
      (if to_string B np = to_string B op then holders (users w') (to_string B op) = [u]
       else holders (users w') (to_string B op) = [])"
proof -
  from ok obtain u np op x w1 where
    sess: "session_user w sid = Some u" and np: "new_pin = Some np" and op: "old_pin = Some op" and
    f1: "backendFetch (GetUserByPin (to_string B op)) w = (Inr (Some x), w1)" and
    xu: "username x = u" and
    f2: "backendFetch (PatchUser u (PatchPin (to_string B np))) w1 = (Inr acc, w')"
    by (rule change_pin_ok_trace)
  from f1 obtain r where r: "x = user_to_dict r" "find (\<lambda>r. pin r = to_string B op) (users w) = Some r"
    and u1: "users w1 = users w"
    by (auto dest!: fetch_GetUserByPin)
  from r xu have ru: "username r = u" by (simp add: user_to_dict_def)
  from f2 u1 have u2: "users w' = set_pin u (to_string B np) (users w)"
    and free: "\<not> list_ex (\<lambda>r'. pin r' = to_string B np \<and> username r' \<noteq> u) (users w)"
    and ex: "\<exists>r. find (\<lambda>r. username r = u) (users w) = Some r"
    by (auto dest!: fetch_PatchPin)
  from ex have "u \<in> set (map username (users w))"
    by (auto simp: find_Some_iff)
  with names have new: "holders (users w') (to_string B np) = [u]"
    by (simp add: u2 holders_set_pin_new [OF free] filter_eq_distinct names_unique_def)
  have old: "holders (users w') (to_string B op) = []" if ne: "to_string B np \<noteq> to_string B op"
  proof -
    have "\<And>r'. r' \<in> set (users w) \<Longrightarrow> pin r' = to_string B op \<Longrightarrow> username r' = u"
      using find_pin_unique [OF pins [unfolded pins_unique_def] r(2)] ru by blast
    then have "filter (\<lambda>r'. pin r' = to_string B op) (filter (\<lambda>r. username r \<noteq> u) (users w)) = []"
      by (auto simp: filter_empty_conv)
    moreover from ne have "holders (users w') (to_string B op) =
        holders (filter (\<lambda>r. username r \<noteq> u) (users w)) (to_string B op)"
      unfolding u2 by (intro holders_set_pin_old) simp
    ultimately show ?thesis
      by (simp add: holders_def)
  qed
  from sess np op new old show ?thesis by auto
qed

lemma change_pin_requires_old_pin:
  assumes "change_pin B sid new_pin old_pin w = (resp, w')" and "users w' \<noteq> users w"
  shows "\<exists>u op r. session_user w sid = Some u \<and> old_pin = Some op \<and>
           find (\<lambda>r. pin r = to_string B op) (users w) = Some r \<and> username r = u"
  using assms unfolding change_pin_def await_fetch_def
  by (auto simp del: session_user.simps simp: user_to_dict_def
      split: option.splits prod.splits sum.splits if_splits
      dest!: fetch_GetUserByPin fetch_PatchPin)

section \<open>Transfers\<close>

text \<open>
  Claim C4, as amended. The claim says that a successful transfer changes each balance
  by exactly the amount and keeps the sum. The balances are binary64 numbers, and lines
  91 and 92 store the rounded results. A transfer that is answered
  \<^verbatim>\<open>{message: 'ok', user: ...}\<close> between a sender and a different receiver had a finite
  positive amount \<open>a\<close> within the sender's balance \<open>s\<close>; both accounts existed;
  afterwards the sender's balance is \<open>s - a\<close> rounded and the receiver's is \<open>r + a\<close>
  rounded. When both results are exact, the sum of the two balances is what it was; and
  both results are exact when they are integers below \<open>2^53\<close> in magnitude. This holds
  for every schedule of backend failures.
\<close>

theorem transfer_moves_rounded_amount:
  assumes ok: "transfer B sid to amount w = (Response 200 (MessageUser ''ok'' acc), w')"
    and sess: "session_user w sid = Some from"
    and dest: "to = Some t"
    and distinct: "to_string B t \<noteq> from"
  shows "\<exists>v a s r d c. amount = Some v \<and> to_number B v = Fin a \<and> 0 < a \<and> a \<le> s \<and>
      balance_of (users w) from = Some s \<and> balance_of (users w) (to_string B t) = Some r \<and>
      round64 (s - a) = Fin d \<and> round64 (r + a) = Fin c \<and>
      balance_of (users w') from = Some d \<and>
      balance_of (users w') (to_string B t) = Some c \<and>
      (d = s - a \<and> c = r + a \<longrightarrow>
         pair_total (users w') from (to_string B t) = Some (s + r) \<and>
         pair_total (users w) from (to_string B t) = Some (s + r)) \<and>
      ((\<exists>i j. s - a = of_int i \<and> r + a = of_int j \<and> \<bar>i\<bar> < 2 ^ 53 \<and> \<bar>j\<bar> < 2 ^ 53) \<longrightarrow>
         d = s - a \<and> c = r + a)"
  using ok
proof (cases rule: transfer_reaches_try)
  case rejected
  then show ?thesis by simp
next
  case (tried from' t' v)
  with sess dest have eq: "from' = from" "t' = t" by simp_all
  from transfer_try_ok [OF tried(6) [unfolded eq]] distinct
  obtain a s r d c where a: "to_number B v = Fin a" and le: "a \<le> s"
    and s: "balance_of (users w) from = Some s"
    and r: "balance_of (users w) (to_string B t) = Some r"
    and d: "round64 (s - a) = Fin d" and c: "round64 (r + a) = Fin c"
    and after: "balance_of (users w') from = Some d"
      "balance_of (users w') (to_string B t) = Some c"
    by blast
  from tried(5) a have pos: "0 < a" by simp
  have exact: "d = s - a \<and> c = r + a"
    if "\<exists>i j. s - a = of_int i \<and> r + a = of_int j \<and> \<bar>i\<bar> < 2 ^ 53 \<and> \<bar>j\<bar> < 2 ^ 53"
  proof -
    from that obtain i j where ij: "s - a = of_int i" "r + a = of_int j"
      "\<bar>i\<bar> < 2 ^ 53" "\<bar>j\<bar> < 2 ^ 53"
      by blast
    from round64_of_int [OF ij(3)] round64_of_int [OF ij(4)] d c ij(1,2)
    show ?thesis by simp
  qed
  have total: "pair_total (users w') from (to_string B t) = Some (s + r) \<and>
      pair_total (users w) from (to_string B t) = Some (s + r)"
    if "d = s - a \<and> c = r + a"
    using that s r after by (simp add: pair_total_def)
  from tried(3) a pos le s r d c after exact total show ?thesis
    by blast
qed

text \<open>
  The scenario: Alice (100) transfers 30 to Bob (10); then Alice has 70 and Bob 40, and
  the two balances sum to 110 before and after.
\<close>

theorem transfer_moves_rounded_amount_witness:
  "balance_of (users (snd (transfer example_builtins ''s1'' (Some (JStr ''bob''))
      (Some (JNum (Fin 30))) example_world))) ''alice'' = Some 70 \<and>
   balance_of (users (snd (transfer example_builtins ''s1'' (Some (JStr ''bob''))
      (Some (JNum (Fin 30))) example_world))) ''bob'' = Some 40 \<and>
   pair_total (users (snd (transfer example_builtins ''s1'' (Some (JStr ''bob''))
      (Some (JNum (Fin 30))) example_world))) ''alice'' ''bob'' = Some 110 \<and>
   pair_total (users example_world) ''alice'' ''bob'' = Some 110"
proof -
  let ?run = "transfer example_builtins ''s1'' (Some (JStr ''bob'')) (Some (JNum (Fin 30)))
      example_world"
  have ok: "?run = (Response 200 (MessageUser ''ok''
      (Some \<lparr>username = ''alice'', kvrcoin = 70, chess_points = 50\<rparr>)), snd ?run)"
    by (simp add: run_defs example_defs)
  have sess: "session_user example_world ''s1'' = Some ''alice''"
    by (simp add: example_defs)
  have ne: "to_string example_builtins (JStr ''bob'') \<noteq> ''alice''"
    by simp
  from transfer_moves_rounded_amount [OF ok sess refl ne]
  obtain v a s r d c where h: "Some (JNum (Fin 30)) = Some v"
    "to_number example_builtins v = Fin a"
    "balance_of (users example_world) ''alice'' = Some s"
    "balance_of (users example_world) (to_string example_builtins (JStr ''bob'')) = Some r"
    "balance_of (users (snd ?run)) ''alice'' = Some d"
    "balance_of (users (snd ?run)) (to_string example_builtins (JStr ''bob'')) = Some c"
    and exact: "(\<exists>i j. s - a = of_int i \<and> r + a = of_int j \<and> \<bar>i\<bar> < 2 ^ 53 \<and> \<bar>j\<bar> < 2 ^ 53) \<longrightarrow>
         d = s - a \<and> c = r + a"
    and total: "d = s - a \<and> c = r + a \<longrightarrow>
         pair_total (users (snd ?run)) ''alice'' (to_string example_builtins (JStr ''bob''))
           = Some (s + r) \<and>
         pair_total (users example_world) ''alice'' (to_string example_builtins (JStr ''bob''))
           = Some (s + r)"
    by blast
  from h have vals: "a = 30" "s = 100" "r = 10"
    by (auto simp: example_defs balance_of_def)
  have "s - a = of_int 70 \<and> r + a = of_int 40 \<and> \<bar>70::int\<bar> < 2 ^ 53 \<and> \<bar>40::int\<bar> < 2 ^ 53"
    by (simp add: vals)
  then have "\<exists>i j. s - a = of_int i \<and> r + a = of_int j \<and> \<bar>i\<bar> < 2 ^ 53 \<and> \<bar>j\<bar> < 2 ^ 53"
    by blast
  with exact have dc: "d = s - a" "c = r + a"
    by simp_all
  with total h vals show ?thesis
    by simp
qed

text \<open>
  Claim C4 as stated fails: Alice holds \<open>10^17\<close> coins, a binary64 value, and transfers
  1 coin to Bob (10). The transfer is answered \<^verbatim>\<open>ok\<close>; the difference \<open>10^17 - 1\<close> is
  rounded back to \<open>10^17\<close>, so Alice's balance does not decrease, Bob's rises to 11, and
  the sum of the two rises by 1.
\<close>

theorem transfer_rounding_breaks_conservation:
  "fst (transfer example_builtins ''s1'' (Some (JStr ''bob'')) (Some (JNum (Fin 1))) large_world)
     = Response 200 (MessageUser ''ok''
         (Some \<lparr>username = ''alice'', kvrcoin = 10 ^ 17, chess_points = 50\<rparr>)) \<and>
   round64 (10 ^ 17) = Fin (10 ^ 17) \<and>
   balance_of (users large_world) ''alice'' = Some (10 ^ 17) \<and>
   balance_of (users large_world) ''bob'' = Some 10 \<and>
   balance_of (users (snd (transfer example_builtins ''s1'' (Some (JStr ''bob''))
     (Some (JNum (Fin 1))) large_world))) ''alice'' = Some (10 ^ 17) \<and>
   balance_of (users (snd (transfer example_builtins ''s1'' (Some (JStr ''bob''))
     (Some (JNum (Fin 1))) large_world))) ''bob'' = Some 11 \<and>
   pair_total (users large_world) ''alice'' ''bob'' = Some (10 ^ 17 + 10) \<and>
   pair_total (users (snd (transfer example_builtins ''s1'' (Some (JStr ''bob''))
     (Some (JNum (Fin 1))) large_world))) ''alice'' ''bob'' = Some (10 ^ 17 + 11)"
  by (simp add: run_defs example_defs large_world_def pair_total_def)

text \<open>
  Claim C1, as amended. The claim says that a failure after the debit rolls the debit
  back. The handler has no rollback: the debit and the credit are two separate PATCH
  requests. First, for every transfer request and every schedule of backend failures,
  the table after the request is in one of three states: unchanged; the sender debited
  and nothing else changed, the answer being the one of the \<^verbatim>\<open>catch\<close> block; or the
  sender debited and then the receiver credited. Second, for a request that passes every
  check (a session user with balance \<open>s\<close>, an existing receiver, a finite amount \<open>a\<close>
  with \<open>0 < a \<le> s\<close>): when the backend fails one of the first three calls (a read or the
  debit) with \<open>e\<close>, the answer is the forwarded \<open>e\<close> and the table is unchanged; when
  the first three calls are served and the fourth (the credit) fails with \<open>e\<close>, the
  answer is the forwarded \<open>e\<close> and the table holds the debit: the sender's balance is
  \<open>s - a\<close> rounded, and nothing is rolled back; when only the fifth call (the last
  read) fails, the answer is the forwarded \<open>e\<close> and the table holds the debit and the
  credit.
\<close>

theorem transfer_not_atomic:
  "(transfer B sid to amount w = (resp, w') \<longrightarrow>
      users w' = users w
    \<or> (\<exists>from v a s d e. session_user w sid = Some from \<and> amount = Some v \<and>
          to_number B v = Fin a \<and> 0 < a \<and> a \<le> s \<and> balance_of (users w) from = Some s \<and>
          round64 (s - a) = Fin d \<and>
          resp = on_error e \<and> users w' = set_kvrcoin from d (users w))
    \<or> (\<exists>from t v a s r d c. session_user w sid = Some from \<and> to = Some t \<and>
          amount = Some v \<and>
          to_number B v = Fin a \<and> 0 < a \<and> a \<le> s \<and> balance_of (users w) from = Some s \<and>
          balance_of (users w) (to_string B t) = Some r \<and>
          round64 (s - a) = Fin d \<and> round64 (r + a) = Fin c \<and>
          users w' = set_kvrcoin (to_string B t) c (set_kvrcoin from d (users w))))
   \<and> (session_user w sid = Some u \<and> truthy (Some t') \<and> to_number B v' = Fin a' \<and> 0 < a' \<and>
      a' \<le> s' \<and> balance_of (users w) u = Some s' \<and>
      balance_of (users w) (to_string B t') = Some r' \<and> round64 (s' - a') = Fin d' \<longrightarrow>
        ((faults w = Some e' # fs \<or> faults w = None # Some e' # fs
            \<or> faults w = None # None # Some e' # fs)
          \<longrightarrow> fst (transfer B sid (Some t') (Some v') w) = on_error e'
              \<and> users (snd (transfer B sid (Some t') (Some v') w)) = users w)
      \<and> (faults w = None # None # None # Some e' # fs
          \<longrightarrow> fst (transfer B sid (Some t') (Some v') w) = on_error e'
              \<and> users (snd (transfer B sid (Some t') (Some v') w))
                  = set_kvrcoin u d' (users w))
      \<and> (faults w = None # None # None # None # Some e' # fs \<and> round64 (r' + a') = Fin c'
          \<longrightarrow> fst (transfer B sid (Some t') (Some v') w) = on_error e'
              \<and> users (snd (transfer B sid (Some t') (Some v') w))
                  = set_kvrcoin (to_string B t') c' (set_kvrcoin u d' (users w))))"
proof (intro conjI impI)
  assume run: "transfer B sid to amount w = (resp, w')"
  let ?goal = "users w' = users w
    \<or> (\<exists>from v a s d e. session_user w sid = Some from \<and> amount = Some v \<and>
          to_number B v = Fin a \<and> 0 < a \<and> a \<le> s \<and> balance_of (users w) from = Some s \<and>
          round64 (s - a) = Fin d \<and>
          resp = on_error e \<and> users w' = set_kvrcoin from d (users w))
    \<or> (\<exists>from t v a s r d c. session_user w sid = Some from \<and> to = Some t \<and>
          amount = Some v \<and>
          to_number B v = Fin a \<and> 0 < a \<and> a \<le> s \<and> balance_of (users w) from = Some s \<and>
          balance_of (users w) (to_string B t) = Some r \<and>
          round64 (s - a) = Fin d \<and> round64 (r + a) = Fin c \<and>
          users w' = set_kvrcoin (to_string B t) c (set_kvrcoin from d (users w)))"
  from run show ?goal
  proof (cases rule: transfer_reaches_try)
    case rejected
    then show ?thesis by simp
  next
    case (tried "from" t v)
    show ?thesis
    proof (cases "users w' = users w")
      case True
      then show ?thesis by simp
    next
      case False
      from tried(6) False show ?thesis
      proof (cases rule: transfer_try_table)
        case (debit a s d e)
        from tried(5) debit(1) have "0 < a" by simp
        with tried(1,3) debit show ?thesis by blast
      next
        case (both a s r d c)
        from tried(5) both(1) have "0 < a" by simp
        with tried(1,2,3) both show ?thesis by blast
      qed
    qed
  qed
next
  assume h: "session_user w sid = Some u \<and> truthy (Some t') \<and> to_number B v' = Fin a' \<and>
      0 < a' \<and> a' \<le> s' \<and> balance_of (users w) u = Some s' \<and>
      balance_of (users w) (to_string B t') = Some r' \<and> round64 (s' - a') = Fin d'"
  assume early: "faults w = Some e' # fs \<or> faults w = None # Some e' # fs
            \<or> faults w = None # None # Some e' # fs"
  from h early show "fst (transfer B sid (Some t') (Some v') w) = on_error e'"
    by (intro transfer_early_failure(1) [of w sid u t' B v' a' s' r' d' e' fs]) simp_all
next
  assume h: "session_user w sid = Some u \<and> truthy (Some t') \<and> to_number B v' = Fin a' \<and>
      0 < a' \<and> a' \<le> s' \<and> balance_of (users w) u = Some s' \<and>
      balance_of (users w) (to_string B t') = Some r' \<and> round64 (s' - a') = Fin d'"
  assume early: "faults w = Some e' # fs \<or> faults w = None # Some e' # fs
            \<or> faults w = None # None # Some e' # fs"
  from h early show "users (snd (transfer B sid (Some t') (Some v') w)) = users w"
    by (intro transfer_early_failure(2) [of w sid u t' B v' a' s' r' d' e' fs]) simp_all
next
  assume h: "session_user w sid = Some u \<and> truthy (Some t') \<and> to_number B v' = Fin a' \<and>
      0 < a' \<and> a' \<le> s' \<and> balance_of (users w) u = Some s' \<and>
      balance_of (users w) (to_string B t') = Some r' \<and> round64 (s' - a') = Fin d'"
  assume late: "faults w = None # None # None # Some e' # fs"
  from h late show "fst (transfer B sid (Some t') (Some v') w) = on_error e'"
    by (intro transfer_credit_failure(1) [of w sid u t' B v' a' s' r' d' e' fs]) simp_all
next
  assume h: "session_user w sid = Some u \<and> truthy (Some t') \<and> to_number B v' = Fin a' \<and>
      0 < a' \<and> a' \<le> s' \<and> balance_of (users w) u = Some s' \<and>
      balance_of (users w) (to_string B t') = Some r' \<and> round64 (s' - a') = Fin d'"
  assume late: "faults w = None # None # None # Some e' # fs"
  from h late show "users (snd (transfer B sid (Some t') (Some v') w))
      = set_kvrcoin u d' (users w)"
    by (intro transfer_credit_failure(2) [of w sid u t' B v' a' s' r' d' e' fs]) simp_all
next
  assume h: "session_user w sid = Some u \<and> truthy (Some t') \<and> to_number B v' = Fin a' \<and>
      0 < a' \<and> a' \<le> s' \<and> balance_of (users w) u = Some s' \<and>
      balance_of (users w) (to_string B t') = Some r' \<and> round64 (s' - a') = Fin d'"
  assume last: "faults w = None # None # None # None # Some e' # fs \<and>
      round64 (r' + a') = Fin c'"
  from h last show "fst (transfer B sid (Some t') (Some v') w) = on_error e'"
    by (intro transfer_refresh_failure(1) [of w sid u t' B v' a' s' r' d' c' e' fs]) simp_all
next
  assume h: "session_user w sid = Some u \<and> truthy (Some t') \<and> to_number B v' = Fin a' \<and>
      0 < a' \<and> a' \<le> s' \<and> balance_of (users w) u = Some s' \<and>
      balance_of (users w) (to_string B t') = Some r' \<and> round64 (s' - a') = Fin d'"
  assume last: "faults w = None # None # None # None # Some e' # fs \<and>
      round64 (r' + a') = Fin c'"
  from h last show "users (snd (transfer B sid (Some t') (Some v') w))
      = set_kvrcoin (to_string B t') c' (set_kvrcoin u d' (users w))"
    by (intro transfer_refresh_failure(2) [of w sid u t' B v' a' s' r' d' c' e' fs]) simp_all
qed

text \<open>
  The theorem at the transfer of 30 coins from Alice to Bob when the backend fails the
  credit: the answer is the forwarded error and the table holds Alice's debit to 70.
\<close>

theorem transfer_not_atomic_witness:
  "fst (transfer example_builtins ''s1'' (Some (JStr ''bob'')) (Some (JNum (Fin 30)))
      credit_outage) = on_error (ThrownError ''connect ECONNREFUSED'') \<and>
   users (snd (transfer example_builtins ''s1'' (Some (JStr ''bob'')) (Some (JNum (Fin 30)))
      credit_outage)) = set_kvrcoin ''alice'' 70 (users credit_outage)"
proof -
  have h: "session_user credit_outage ''s1'' = Some ''alice''" "truthy (Some (JStr ''bob''))"
    "to_number example_builtins (JNum (Fin 30)) = Fin 30" "(0::rat) < 30" "(30::rat) \<le> 100"
    "balance_of (users credit_outage) ''alice'' = Some 100"
    "balance_of (users credit_outage) (to_string example_builtins (JStr ''bob'')) = Some 10"
    "round64 (100 - 30) = Fin 70"
    "faults credit_outage = None # None # None # Some (ThrownError ''connect ECONNREFUSED'') # []"
    by (simp_all add: credit_outage_def example_defs balance_of_def round64_defs)
  from transfer_not_atomic [of example_builtins "''s1''" None None credit_outage
      "Response 0 (ErrorBody [])" credit_outage "''alice''" "JStr ''bob''" "JNum (Fin 30)" 30 100 10 70
      "ThrownError ''connect ECONNREFUSED''" "[]" 40] h
  show ?thesis
    by blast
qed

text \<open>
  Claim C1 as stated fails: Alice (100) transfers 30 to Bob (10) and the PATCH of Bob's
  balance fails. The caller receives the error, Alice is left with 70 and Bob with 10.
\<close>

theorem transfer_credit_failure_keeps_debit:
  "fst (transfer example_builtins ''s1'' (Some (JStr ''bob'')) (Some (JNum (Fin 30))) credit_outage)
     = Response 500 (ErrorBody ''connect ECONNREFUSED'') \<and>
   balance_of (users (snd (transfer example_builtins ''s1'' (Some (JStr ''bob''))
     (Some (JNum (Fin 30))) credit_outage))) ''alice'' = Some 70 \<and>
   balance_of (users (snd (transfer example_builtins ''s1'' (Some (JStr ''bob''))
     (Some (JNum (Fin 30))) credit_outage))) ''bob'' = Some 10 \<and>
   balance_of (users credit_outage) ''alice'' = Some 100 \<and>
   balance_of (users credit_outage) ''bob'' = Some 10"
  by (simp add: run_defs example_defs credit_outage_def)

text \<open>
  Claim C2, as amended. The claim says that a transfer to oneself is rejected with
  InvalidTransfer. The handler never compares the destination with the session user: a
  transfer to oneself passes through the checks of any transfer. With a truthy
  destination that names the session user: an amount that is NaN or not above zero is
  answered \<^verbatim>\<open>invalid amount\<close> with the state untouched; with an available backend, an
  amount above the balance is answered \<^verbatim>\<open>insufficient funds\<close> with the table and the
  sessions unchanged, and any other valid amount for which the two balances that the
  handler computes (lines 91 and 92) are finite numbers is answered \<^verbatim>\<open>ok\<close>. The balance
  after an accepted transfer to oneself is left out of the statement.
\<close>

theorem self_transfer_is_an_ordinary_transfer:
  assumes "session_user w sid = Some from" and "to_string B t = from" and "truthy (Some t)"
  shows "(is_NaN (to_number B v) \<or> js_le (to_number B v) (Fin 0)
      \<longrightarrow> transfer B sid (Some t) (Some v) w = (Response 400 (ErrorBody ''invalid amount''), w))
    \<and> (faults w = [] \<and> balance_of (users w) from = Some s \<and> 0 \<le> s \<and>
        js_lt (Fin s) (to_number B v)
      \<longrightarrow> fst (transfer B sid (Some t) (Some v) w)
            = Response 400 (ErrorBody ''insufficient funds'')
          \<and> users (snd (transfer B sid (Some t) (Some v) w)) = users w
          \<and> sessions (snd (transfer B sid (Some t) (Some v) w)) = sessions w)
    \<and> (faults w = [] \<and> balance_of (users w) from = Some s \<and>
        \<not> is_NaN (to_number B v) \<and> \<not> js_le (to_number B v) (Fin 0) \<and>
        \<not> js_lt (Fin s) (to_number B v) \<and>
        stringify (js_sub (Fin s) (to_number B v)) \<noteq> None \<and>
        stringify (js_add (Fin s) (to_number B v)) \<noteq> None
      \<longrightarrow> (\<exists>acc. fst (transfer B sid (Some t) (Some v) w)
            = Response 200 (MessageUser ''ok'' acc)))"
proof (intro conjI impI)
  assume "is_NaN (to_number B v) \<or> js_le (to_number B v) (Fin 0)"
  from transfer_invalid_amount [OF this assms(1,3)]
  show "transfer B sid (Some t) (Some v) w = (Response 400 (ErrorBody ''invalid amount''), w)" .
next
  assume h: "faults w = [] \<and> balance_of (users w) from = Some s \<and> 0 \<le> s \<and>
        js_lt (Fin s) (to_number B v)"
  with assms have *: "fst (transfer B sid (Some t) (Some v) w)
            = Response 400 (ErrorBody ''insufficient funds'')
          \<and> users (snd (transfer B sid (Some t) (Some v) w)) = users w
          \<and> sessions (snd (transfer B sid (Some t) (Some v) w)) = sessions w"
    using transfer_short_of_funds [of w sid "from" t s B s v] by simp
  from * show "fst (transfer B sid (Some t) (Some v) w)
            = Response 400 (ErrorBody ''insufficient funds'')" by simp
  from * show "users (snd (transfer B sid (Some t) (Some v) w)) = users w" by simp
  from * show "sessions (snd (transfer B sid (Some t) (Some v) w)) = sessions w" by simp
next
  assume "faults w = [] \<and> balance_of (users w) from = Some s \<and>
        \<not> is_NaN (to_number B v) \<and> \<not> js_le (to_number B v) (Fin 0) \<and>
        \<not> js_lt (Fin s) (to_number B v) \<and>
        stringify (js_sub (Fin s) (to_number B v)) \<noteq> None \<and>
        stringify (js_add (Fin s) (to_number B v)) \<noteq> None"
  with assms show "\<exists>acc. fst (transfer B sid (Some t) (Some v) w)
            = Response 200 (MessageUser ''ok'' acc)"
    using valid_self_transfer_ok [of w sid "from" B t s v] by simp
qed

text \<open>
  The theorem at Alice's transfers to herself of 0, of 200 and of 30 coins.
\<close>

theorem self_transfer_is_an_ordinary_transfer_witness:
  "transfer example_builtins ''s1'' (Some (JStr ''alice'')) (Some (JNum (Fin 0))) example_world
      = (Response 400 (ErrorBody ''invalid amount''), example_world) \<and>
   fst (transfer example_builtins ''s1'' (Some (JStr ''alice'')) (Some (JNum (Fin 200)))
      example_world) = Response 400 (ErrorBody ''insufficient funds'') \<and>
   users (snd (transfer example_builtins ''s1'' (Some (JStr ''alice'')) (Some (JNum (Fin 200)))
      example_world)) = users example_world \<and>
   (\<exists>acc. fst (transfer example_builtins ''s1'' (Some (JStr ''alice'')) (Some (JNum (Fin 30)))
      example_world) = Response 200 (MessageUser ''ok'' acc))"
proof -
  have h: "session_user example_world ''s1'' = Some ''alice''"
    "to_string example_builtins (JStr ''alice'') = ''alice''" "truthy (Some (JStr ''alice''))"
    "faults example_world = []" "balance_of (users example_world) ''alice'' = Some 100"
    by (simp_all add: example_defs balance_of_def)
  note inst = self_transfer_is_an_ordinary_transfer [OF h(1,2,3), where s = 100]
  from inst [where v = "JNum (Fin 0)"]
  have a: "transfer example_builtins ''s1'' (Some (JStr ''alice'')) (Some (JNum (Fin 0)))
      example_world = (Response 400 (ErrorBody ''invalid amount''), example_world)"
    by simp
  from inst [where v = "JNum (Fin 200)"] h(4,5)
  have b: "fst (transfer example_builtins ''s1'' (Some (JStr ''alice'')) (Some (JNum (Fin 200)))
      example_world) = Response 400 (ErrorBody ''insufficient funds'')"
    "users (snd (transfer example_builtins ''s1'' (Some (JStr ''alice'')) (Some (JNum (Fin 200)))
      example_world)) = users example_world"
    by simp_all
  have finite: "stringify (js_sub (Fin 100) (to_number example_builtins (JNum (Fin 30)))) \<noteq> None"
    "stringify (js_add (Fin 100) (to_number example_builtins (JNum (Fin 30)))) \<noteq> None"
    by (simp_all add: js_sub_def round64_defs)
  from inst [where v = "JNum (Fin 30)"] h(4,5) finite
  have c: "\<exists>acc. fst (transfer example_builtins ''s1'' (Some (JStr ''alice''))
      (Some (JNum (Fin 30))) example_world) = Response 200 (MessageUser ''ok'' acc)"
    by simp
  from a b c show ?thesis by simp
qed

text \<open>
  Claim C2 as stated fails: Alice (100) transfers 30 to herself. The answer is \<^verbatim>\<open>ok\<close>,
  and since the credit is computed from the balance read before the debit, her balance
  ends at 130.
\<close>

theorem self_transfer_accepted:
  "fst (transfer example_builtins ''s1'' (Some (JStr ''alice'')) (Some (JNum (Fin 30)))
      example_world)
     = Response 200 (MessageUser ''ok''
         (Some \<lparr>username = ''alice'', kvrcoin = 130, chess_points = 50\<rparr>)) \<and>
   session_user example_world ''s1'' = Some ''alice'' \<and>
   balance_of (users example_world) ''alice'' = Some 100 \<and>
   balance_of (users (snd (transfer example_builtins ''s1'' (Some (JStr ''alice''))
      (Some (JNum (Fin 30))) example_world))) ''alice'' = Some 130"
  by (simp add: run_defs example_defs)

text \<open>
  Claim C5. With an available backend and a table without negative balances, a transfer
  from an existing sender to an existing receiver whose amount exceeds the sender's
  balance is answered \<^verbatim>\<open>insufficient funds\<close> and leaves the table as it was. And no run
  of requests, whatever the backend's failures, takes a table without negative balances
  to one with a negative balance.
\<close>

theorem insufficient_funds_and_nonneg:
  "(nonneg (users w) \<and> faults w = [] \<and> session_user w sid = Some from \<and> truthy (Some t) \<and>
    balance_of (users w) from = Some s \<and> balance_of (users w) (to_string B t) = Some r \<and>
    js_lt (Fin s) (to_number B v)
    \<longrightarrow> fst (transfer B sid (Some t) (Some v) w) = Response 400 (ErrorBody ''insufficient funds'')
        \<and> users (snd (transfer B sid (Some t) (Some v) w)) = users w)
   \<and> (nonneg (users w) \<longrightarrow> nonneg (users (run B rqs w)))"
  using transfer_short_of_funds [of w sid "from" t s B r v] nonneg_balance [of "users w" "from" s]
  by (auto simp del: session_user.simps truthy.simps simp: run_nonneg)

text \<open>
  The scenario: Alice (100) transfers 200 to Bob (10); the answer is
  \<^verbatim>\<open>insufficient funds\<close>, Alice still has 100 and Bob 10.
\<close>

theorem insufficient_funds_and_nonneg_witness:
  "fst (transfer example_builtins ''s1'' (Some (JStr ''bob'')) (Some (JNum (Fin 200))) example_world)
     = Response 400 (ErrorBody ''insufficient funds'') \<and>
   balance_of (users (snd (transfer example_builtins ''s1'' (Some (JStr ''bob''))
     (Some (JNum (Fin 200))) example_world))) ''alice'' = Some 100 \<and>
   balance_of (users (snd (transfer example_builtins ''s1'' (Some (JStr ''bob''))
     (Some (JNum (Fin 200))) example_world))) ''bob'' = Some 10 \<and>
   nonneg (users example_world) \<and>
   nonneg (users (run example_builtins
     [Transfer ''s1'' (Some (JStr ''bob'')) (Some (JNum (Fin 30))),
      Transfer ''s1'' (Some (JStr ''bob'')) (Some (JNum (Fin 200)))] example_world))"
proof -
  have h: "nonneg (users example_world)" "faults example_world = []"
    "session_user example_world ''s1'' = Some ''alice''" "truthy (Some (JStr ''bob''))"
    "balance_of (users example_world) ''alice'' = Some 100"
    "balance_of (users example_world) (to_string example_builtins (JStr ''bob'')) = Some 10"
    "js_lt (Fin 100) (to_number example_builtins (JNum (Fin 200)))"
    by (simp_all add: example_defs nonneg_def balance_of_def)
  from insufficient_funds_and_nonneg [of example_world "''s1''" "''alice''" "JStr ''bob''" 100
      example_builtins 10 "JNum (Fin 200)"
      "[Transfer ''s1'' (Some (JStr ''bob'')) (Some (JNum (Fin 30))),
        Transfer ''s1'' (Some (JStr ''bob'')) (Some (JNum (Fin 200)))]"] h
  have "fst (transfer example_builtins ''s1'' (Some (JStr ''bob'')) (Some (JNum (Fin 200)))
          example_world) = Response 400 (ErrorBody ''insufficient funds'')"
    and "users (snd (transfer example_builtins ''s1'' (Some (JStr ''bob''))
          (Some (JNum (Fin 200))) example_world)) = users example_world"
    and "nonneg (users (run example_builtins
     [Transfer ''s1'' (Some (JStr ''bob'')) (Some (JNum (Fin 30))),
      Transfer ''s1'' (Some (JStr ''bob'')) (Some (JNum (Fin 200)))] example_world))"
    by blast+
  with h show ?thesis by simp
qed

text \<open>
  Claim C6, at the input where the handler departs from it. The amount \<^verbatim>\<open>1e999\<close> is
  parsed as Infinity, which is neither NaN nor at most zero, so line 83 lets it through:
  the handler reads both accounts from the backend and only then rejects the request, as
  \<^verbatim>\<open>insufficient funds\<close>.
\<close>

theorem transfer_infinite_amount_reads_accounts:
  "is_NaN (to_number example_builtins (JNum PInf)) = False \<and>
   transfer example_builtins ''s1'' (Some (JStr ''bob'')) (Some (JNum PInf)) example_world
     = (Response 400 (ErrorBody ''insufficient funds''),
        example_world\<lparr>calls := [GetUser ''alice'', GetUser ''bob'']\<rparr>)"
  by (simp add: run_defs example_defs)

section \<open>Login and logout\<close>

text \<open>
  Claim C3, at the input where the handler departs from it. Alice's username with a PIN
  that maps to no account is answered with the backend's 404, which \<^verbatim>\<open>backendFetch\<close>
  throws before the test of line 50 is reached; Alice's username with Carol's PIN is
  answered 401 \<^verbatim>\<open>Invalid username or pin\<close>. The caller can tell the two causes apart.
\<close>

theorem login_failures_distinguishable:
  "fst (login example_builtins ''s2'' (Some (JStr ''alice'')) (Some (JStr ''9999'')) example_world)
     = Response 404 (ErrorBody ''User not found'') \<and>
   fst (login example_builtins ''s2'' (Some (JStr ''alice'')) (Some (JStr ''3333'')) example_world)
     = Response 401 (ErrorBody ''Invalid username or pin'')"
  by (simp add: run_defs example_defs)

text \<open>
  Claim C9. For every session id and every state, also when the id names no session,
  logout answers \<^verbatim>\<open>logged out\<close> with status 200 and leaves the id without a user; a
  second logout gives the same answer and the same state.
\<close>

theorem logout_idempotent:
  "fst (logout sid w) = Response 200 (MessageBody ''logged out'') \<and>
   sessions (snd (logout sid w)) sid = None \<and>
   logout sid (snd (logout sid w)) = logout sid w"
  by (simp add: logout_def)

section \<open>Change of PIN\<close>

text \<open>
  Claim C7, at the input where the handler departs from it. Alice's session with an old
  PIN that maps to no account is answered with the backend's 404, not with the 401 of
  line 111 that an old PIN of another account gets. In both cases the only call to the
  backend is the lookup of the old PIN.
\<close>

theorem change_pin_unknown_old_pin:
  "change_pin example_builtins ''s1'' (Some (JStr ''4444'')) (Some (JStr ''9999'')) example_world
     = (Response 404 (ErrorBody ''User not found''),
        example_world\<lparr>calls := [GetUserByPin ''9999'']\<rparr>) \<and>
   change_pin example_builtins ''s1'' (Some (JStr ''4444'')) (Some (JStr ''2222'')) example_world
     = (Response 401 (ErrorBody ''Old PIN is incorrect''),
        example_world\<lparr>calls := [GetUserByPin ''2222'']\<rparr>)"
  by (simp add: run_defs example_defs)

text \<open>
  Claim C8, as amended, against the backend modelled from the spec. With an available
  backend, a change of PIN that passes the check of the old PIN and whose new PIN maps to
  a different account is answered with the backend's \<open>PinAlreadyInUse\<close> and leaves the
  table as it was. After a successful change on a table with unique usernames and unique
  PINs, exactly one account maps to the new PIN, and the old PIN maps to no account when
  it differs from the new one.
\<close>

theorem change_pin_uniqueness:
  "(faults w = [] \<and> session_user w sid = Some u \<and>
    find (\<lambda>r. pin r = to_string B op) (users w) = Some x \<and> username x = u \<and>
    list_ex (\<lambda>r. pin r = to_string B np \<and> username r \<noteq> u) (users w)
    \<longrightarrow> fst (change_pin B sid (Some np) (Some op) w) = on_error PinAlreadyInUse
        \<and> users (snd (change_pin B sid (Some np) (Some op) w)) = users w)
   \<and> (names_unique (users w) \<and> pins_unique (users w) \<and>
      change_pin B sid (Some np) (Some op) w = (Response 200 (AccountBody acc), w')
    \<longrightarrow> length (holders (users w') (to_string B np)) = 1
        \<and> (to_string B np \<noteq> to_string B op \<longrightarrow> holders (users w') (to_string B op) = []))"
proof (intro conjI impI)
  assume h: "faults w = [] \<and> session_user w sid = Some u \<and>
    find (\<lambda>r. pin r = to_string B op) (users w) = Some x \<and> username x = u \<and>
    list_ex (\<lambda>r. pin r = to_string B np \<and> username r \<noteq> u) (users w)"
  then have run: "change_pin B sid (Some np) (Some op) w =
     (on_error PinAlreadyInUse,
      w\<lparr>calls := calls w @ [GetUserByPin (to_string B op), PatchUser u (PatchPin (to_string B np))],
        faults := [], users := users w\<rparr>)"
    using change_pin_in_use [of w sid u B op x np] by blast
  show "fst (change_pin B sid (Some np) (Some op) w) = on_error PinAlreadyInUse"
    by (simp add: run)
  show "users (snd (change_pin B sid (Some np) (Some op) w)) = users w"
    by (simp add: run)
next
  assume h: "names_unique (users w) \<and> pins_unique (users w) \<and>
      change_pin B sid (Some np) (Some op) w = (Response 200 (AccountBody acc), w')"
  from change_pin_holders [of B sid "Some np" "Some op" w acc w'] h
  obtain u' where new: "holders (users w') (to_string B np) = [u']"
    and old: "if to_string B np = to_string B op then holders (users w') (to_string B op) = [u']
       else holders (users w') (to_string B op) = []"
    by auto
  from new show "length (holders (users w') (to_string B np)) = 1" by simp
  assume "to_string B np \<noteq> to_string B op"
  with old show "holders (users w') (to_string B op) = []" by simp
qed

text \<open>
  The theorem at Alice's change to Bob's PIN, which is refused, and at her change from
  1111 to 4444.
\<close>

theorem change_pin_uniqueness_witness:
  "fst (change_pin example_builtins ''s1'' (Some (JStr ''2222'')) (Some (JStr ''1111''))
      example_world) = Response 409 (ErrorBody ''PinAlreadyInUse'') \<and>
   users (snd (change_pin example_builtins ''s1'' (Some (JStr ''2222'')) (Some (JStr ''1111''))
      example_world)) = users example_world \<and>
   holders (users (snd (change_pin example_builtins ''s1'' (Some (JStr ''4444''))
      (Some (JStr ''1111'')) example_world))) ''4444'' = [''alice''] \<and>
   holders (users (snd (change_pin example_builtins ''s1'' (Some (JStr ''4444''))
      (Some (JStr ''1111'')) example_world))) ''1111'' = []"
proof -
  let ?taken = "change_pin example_builtins ''s1'' (Some (JStr ''2222'')) (Some (JStr ''1111''))
      example_world"
  let ?free = "change_pin example_builtins ''s1'' (Some (JStr ''4444'')) (Some (JStr ''1111''))
      example_world"
  have pre: "faults example_world = []" "session_user example_world ''s1'' = Some ''alice''"
    "find (\<lambda>r. pin r = to_string example_builtins (JStr ''1111'')) (users example_world)
       = Some alice"
    "username alice = ''alice''"
    "list_ex (\<lambda>r. pin r = to_string example_builtins (JStr ''2222'') \<and> username r \<noteq> ''alice'')
       (users example_world)"
    by (simp_all add: example_defs)
  have inv: "names_unique (users example_world)" "pins_unique (users example_world)"
    by (simp_all add: example_defs names_unique_def pins_unique_def)
  have ok: "?free = (Response 200 (AccountBody (Some (user_to_dict alice))), snd ?free)"
    by (simp add: run_defs example_defs)
  from change_pin_uniqueness [of example_world "''s1''" "''alice''" example_builtins
      "JStr ''1111''" alice "JStr ''2222''"] pre
  have taken: "fst ?taken = on_error PinAlreadyInUse" "users (snd ?taken) = users example_world"
    by simp_all
  from change_pin_uniqueness [of example_world "''s1''" "''alice''" example_builtins
      "JStr ''1111''" alice "JStr ''4444''" "Some (user_to_dict alice)" "snd ?free"] inv ok
  have free: "holders (users (snd ?free)) ''1111'' = []"
    by simp
  have "holders (users (snd ?free)) ''4444'' = [''alice'']"
    by (simp add: run_defs example_defs holders_def)
  with taken free show ?thesis
    by (simp add: PinAlreadyInUse_def)
qed

text \<open>
  Claim C8 as stated fails: Alice changes her PIN 1111 to 1111. The change succeeds and
  the old PIN still maps to her account.
\<close>

theorem change_pin_same_pin_keeps_old:
  "fst (change_pin example_builtins ''s1'' (Some (JStr ''1111'')) (Some (JStr ''1111''))
      example_world)
     = Response 200 (AccountBody (Some \<lparr>username = ''alice'', kvrcoin = 100, chess_points = 50\<rparr>)) \<and>
   holders (users (snd (change_pin example_builtins ''s1'' (Some (JStr ''1111''))
      (Some (JStr ''1111'')) example_world))) ''1111'' = [''alice'']"
  by (simp add: run_defs example_defs holders_def)

text \<open>
  Claim C10. With an available backend, a change of PIN that passes the check of the old
  PIN and whose new PIN no other account holds sends the PATCH
  \<^verbatim>\<open>{pin: String(new_pin)}\<close> for the session user and succeeds, whatever JSON scalar the
  new PIN is; the session user's stored PIN is then that string. The number 1234 and the
  string \<^verbatim>\<open>"1234"\<close> are coerced to the same string, and a request with the one is
  handled as a request with the other.
\<close>

theorem change_pin_stores_string_coercion:
  assumes "faults w = []" and "session_user w sid = Some u"
    and "find (\<lambda>r. pin r = to_string B op) (users w) = Some x" and "username x = u"
    and "\<not> list_ex (\<lambda>r. pin r = to_string B np \<and> username r \<noteq> u) (users w)"
  shows "(\<exists>acc. change_pin B sid (Some np) (Some op) w =
      (Response 200 (AccountBody (Some acc)),
       w\<lparr>calls := calls w @ [GetUserByPin (to_string B op),
            PatchUser u (PatchPin (to_string B np))],
         faults := [], users := set_pin u (to_string B np) (users w)\<rparr>))
    \<and> map_option pin (find (\<lambda>r. username r = u) (set_pin u (to_string B np) (users w)))
        = Some (to_string B np)
    \<and> to_string B (JNum (Fin 1234)) = to_string B (JStr ''1234'')
    \<and> change_pin B sid (Some (JNum (Fin 1234))) (Some op) w
        = change_pin B sid (Some (JStr ''1234'')) (Some op) w"
proof -
  from assms(3,4) have "\<exists>r. find (\<lambda>r. username r = u) (users w) = Some r"
    by (cases "find (\<lambda>r. username r = u) (users w)") (auto simp: find_None_iff find_Some_iff)
  then obtain r where r: "find (\<lambda>r. username r = u) (users w) = Some r" ..
  then have ru: "username r = u"
    by (auto simp: find_Some_iff)
  have run: "change_pin B sid (Some np) (Some op) w =
      (Response 200 (AccountBody (Some (user_to_dict (r\<lparr>pin := to_string B np\<rparr>)))),
       w\<lparr>calls := calls w @ [GetUserByPin (to_string B op),
            PatchUser u (PatchPin (to_string B np))],
         faults := [], users := set_pin u (to_string B np) (users w)\<rparr>)"
    using assms r
    by (simp add: change_pin_def await_fetch_available user_to_dict_def
        del: session_user.simps)
  have stored: "map_option pin (find (\<lambda>r. username r = u) (set_pin u (to_string B np) (users w)))
        = Some (to_string B np)"
    by (simp add: find_set_pin r ru)
  have coerced: "to_string B (JNum (Fin 1234)) = to_string B (JStr ''1234'')"
    by (simp add: digits_defs)
  have same: "change_pin B sid (Some (JNum (Fin 1234))) (Some op) w
        = change_pin B sid (Some (JStr ''1234'')) (Some op) w"
    unfolding change_pin_def prod.case option.case coerced by (rule refl)
  from run stored coerced same show ?thesis
    by blast
qed

text \<open>
  The theorem at Alice's change to the PIN \<^verbatim>\<open>hunter2\<close>, which is stored as it is; the
  new PINs 1234 and \<^verbatim>\<open>"1234"\<close> give the same answer and the same state.
\<close>

theorem change_pin_stores_string_coercion_witness:
  "fst (change_pin example_builtins ''s1'' (Some (JStr ''hunter2'')) (Some (JNum (Fin 1111)))
      example_world)
     = Response 200 (AccountBody (Some \<lparr>username = ''alice'', kvrcoin = 100, chess_points = 50\<rparr>)) \<and>
   map_option pin (find (\<lambda>r. username r = ''alice'')
     (users (snd (change_pin example_builtins ''s1'' (Some (JStr ''hunter2''))
        (Some (JNum (Fin 1111))) example_world)))) = Some ''hunter2'' \<and>
   change_pin example_builtins ''s1'' (Some (JNum (Fin 1234))) (Some (JNum (Fin 1111)))
      example_world
     = change_pin example_builtins ''s1'' (Some (JStr ''1234'')) (Some (JNum (Fin 1111)))
      example_world"
proof -
  have pre: "faults example_world = []" "session_user example_world ''s1'' = Some ''alice''"
    "find (\<lambda>r. pin r = to_string example_builtins (JNum (Fin 1111))) (users example_world)
       = Some alice"
    "username alice = ''alice''"
    by (simp_all add: example_defs digits_defs)
  have free: "\<not> list_ex (\<lambda>r. pin r = to_string example_builtins np \<and> username r \<noteq> ''alice'')
       (users example_world)"
    if "to_string example_builtins np \<noteq> ''2222''" "to_string example_builtins np \<noteq> ''3333''"
    for np
    using that by (simp add: example_defs)
  note inst = change_pin_stores_string_coercion [OF pre]
  from inst [of "JStr ''hunter2''"] free [of "JStr ''hunter2''"]
  obtain acc where run: "change_pin example_builtins ''s1'' (Some (JStr ''hunter2''))
      (Some (JNum (Fin 1111))) example_world =
      (Response 200 (AccountBody (Some acc)),
       example_world\<lparr>calls := calls example_world @ [GetUserByPin ''1111'',
            PatchUser ''alice'' (PatchPin ''hunter2'')],
         faults := [], users := set_pin ''alice'' ''hunter2'' (users example_world)\<rparr>)"
    and stored: "map_option pin (find (\<lambda>r. username r = ''alice'')
        (set_pin ''alice'' ''hunter2'' (users example_world))) = Some ''hunter2''"
    by (auto simp: digits_defs)
  have "change_pin example_builtins ''s1'' (Some (JNum (Fin 1234))) (Some (JNum (Fin 1111)))
      example_world
     = change_pin example_builtins ''s1'' (Some (JStr ''1234'')) (Some (JNum (Fin 1111)))
      example_world"
    by (simp add: run_defs example_defs digits_defs)
  moreover have "fst (change_pin example_builtins ''s1'' (Some (JStr ''hunter2''))
      (Some (JNum (Fin 1111))) example_world)
     = Response 200 (AccountBody (Some \<lparr>username = ''alice'', kvrcoin = 100, chess_points = 50\<rparr>))"
    by (simp add: run_defs example_defs digits_defs)
  ultimately show ?thesis
    using run stored by simp
qed

end
